theory Spec2Isabelle
  imports Main "HOL-Library.AList"
begin

section \<open>Authentication core of the collaboration-games backend\<close>

text \<open>
  A shallow embedding of \<^verbatim>\<open>app/api/auth/jwt.py\<close> and \<^verbatim>\<open>app/api/auth/router.py\<close>.
  What the Python code takes from its surroundings is made explicit:
  \<^item> the clock: every call of \<^verbatim>\<open>datetime.utcnow()\<close> is a parameter, counted in whole
    seconds since the epoch (the unit of the \<^verbatim>\<open>exp\<close> claim); a \<^verbatim>\<open>timedelta\<close> is a
    number of seconds;
  \<^item> the process-wide \<^verbatim>\<open>settings\<close> object and the two password functions of
    \<^verbatim>\<open>core/security.py\<close> are parameters;
  \<^item> the database session is a value that the handlers return updated, together with
    the set of database operations that raise during the request;
  \<^item> exceptions are values: a handler returns \<open>Inl\<close> of the exception that leaves it.
\<close>

subsection \<open>Python built-ins on strings and integers\<close>

text \<open>
  \<^verbatim>\<open>str(n)\<close> for an integer: the decimal digits, most significant first, after a minus
  sign for a negative number.
\<close>

definition digit_char :: "nat \<Rightarrow> char" where
  "digit_char d = char_of (48 + d)"

fun str_nat :: "nat \<Rightarrow> string" where
  "str_nat n = (if n < 10 then [digit_char n] else str_nat (n div 10) @ [digit_char (n mod 10)])"

declare str_nat.simps [simp del]

definition py_str :: "int \<Rightarrow> string" where
  "py_str k = (if k < 0 then CHR ''-'' # str_nat (nat (- k)) else str_nat (nat k))"

text \<open>
  \<^verbatim>\<open>int(s)\<close> for a string, base ten: surrounding whitespace is stripped, one sign is
  allowed, then come decimal digits, where single underscores may separate digits. Anything
  else raises \<^verbatim>\<open>ValueError\<close>, here \<open>None\<close>. Strings are ASCII: the whitespace characters are
  the codes 9 to 13 and 32, the digits are the codes 48 to 57. (The non-ASCII digits
  and spaces that Python also accepts, and the interpreter's limit on the number of digits,
  are outside the model.)
\<close>

definition is_space :: "char \<Rightarrow> bool" where
  "is_space c = (let n = (of_char c :: nat) in (9 \<le> n \<and> n \<le> 13) \<or> n = 32)"

definition is_digit :: "char \<Rightarrow> bool" where
  "is_digit c = (let n = (of_char c :: nat) in 48 \<le> n \<and> n \<le> 57)"

definition digit_val :: "char \<Rightarrow> nat" where
  "digit_val c = of_char c - 48"

definition strip :: "string \<Rightarrow> string" where
  "strip s = rev (dropWhile is_space (rev (dropWhile is_space s)))"

text \<open>
  \<open>digits_val cs acc prev\<close> reads the digits \<open>cs\<close> into the accumulator; \<open>prev\<close> says that
  the character before was a digit, which is what an underscore and the end of the string
  both need.
\<close>

fun digits_val :: "string \<Rightarrow> nat \<Rightarrow> bool \<Rightarrow> nat option" where
  "digits_val [] acc prev = (if prev then Some acc else None)"
| "digits_val (c # cs) acc prev =
     (if is_digit c then digits_val cs (acc * 10 + digit_val c) True
      else if c = CHR ''_'' \<and> prev then digits_val cs acc False
      else None)"

definition py_int :: "string \<Rightarrow> int option" where
  "py_int s =
     (case strip s of
        [] \<Rightarrow> None
      | c # cs \<Rightarrow>
          if c = CHR ''-'' then map_option (\<lambda>n. - int n) (digits_val cs 0 False)
          else if c = CHR ''+'' then map_option int (digits_val cs 0 False)
          else map_option int (digits_val (c # cs) 0 False))"

text \<open>\<^verbatim>\<open>sep.join(xs)\<close>.\<close>

fun join :: "string \<Rightarrow> string list \<Rightarrow> string" where
  "join sep [] = []"
| "join sep [x] = x"
| "join sep (x # y # ys) = x @ sep @ join sep (y # ys)"

subsection \<open>Signed tokens\<close>

text \<open>
  The \<^verbatim>\<open>jose\<close> library, symbolically. A claim value is a string or an integer (the two
  kinds of subject that the resolver tells apart); a claims dictionary is an association
  list in insertion order. A token is either a string that is not a three-part signed
  structure, or a header algorithm, a claims dictionary and a signature; the signature
  made with a key for an algorithm and a payload is the term \<open>Hmac key alg payload\<close>, so
  that a signature verifies exactly when it was made with the same key for the same
  algorithm and payload.
\<close>

datatype json = JStr string | JInt int

type_synonym dict = "(string \<times> json) list"

datatype signature = Hmac string string dict

datatype jwt = Opaque string | Compact string dict signature

datatype jwt_error = JWTError | JWTClaimsError | ExpiredSignatureError

definition jwt_encode :: "dict \<Rightarrow> string \<Rightarrow> string \<Rightarrow> jwt" where
  "jwt_encode claims key algorithm = Compact algorithm claims (Hmac key algorithm claims)"

text \<open>
  \<^verbatim>\<open>jwt.decode(token, key, algorithms)\<close> at the time \<open>now\<close>, called as the resolver calls it
  (no audience, issuer, subject or access token, the default options): the structure, the
  algorithm and the signature are checked, then the registered claims, in the library's order:
  \<^item> \<^verbatim>\<open>iat\<close>, when present, must go through \<^verbatim>\<open>int\<close>;
  \<^item> \<^verbatim>\<open>nbf\<close>, when present, must go through \<^verbatim>\<open>int\<close> and not be after \<open>now\<close>;
  \<^item> \<^verbatim>\<open>exp\<close>, when present, must go through \<^verbatim>\<open>int\<close>, and the token is expired when its
    \<^verbatim>\<open>exp\<close> is before \<open>now\<close>;
  \<^item> \<^verbatim>\<open>aud\<close> must be absent, since no audience is given to compare it with;
  \<^item> \<^verbatim>\<open>sub\<close> and \<^verbatim>\<open>jti\<close>, when present, must be strings;
  \<^item> \<^verbatim>\<open>at_hash\<close> must be absent, since no access token is given to compare it with.
  All the errors are \<^verbatim>\<open>JWTError\<close>s for an \<^verbatim>\<open>except JWTError\<close>.
\<close>

definition claim_int :: "json \<Rightarrow> int option" where
  "claim_int v = (case v of JInt e \<Rightarrow> Some e | JStr s \<Rightarrow> py_int s)"

definition is_string :: "json \<Rightarrow> bool" where
  "is_string v = (case v of JStr s \<Rightarrow> True | JInt n \<Rightarrow> False)"

definition validate_iat :: "dict \<Rightarrow> bool" where
  "validate_iat claims =
     (case map_of claims ''iat'' of None \<Rightarrow> True | Some v \<Rightarrow> claim_int v \<noteq> None)"

definition validate_nbf :: "int \<Rightarrow> dict \<Rightarrow> bool" where
  "validate_nbf now claims =
     (case map_of claims ''nbf'' of
        None \<Rightarrow> True
      | Some v \<Rightarrow> (case claim_int v of None \<Rightarrow> False | Some nbf \<Rightarrow> nbf \<le> now))"

definition validate_exp :: "int \<Rightarrow> dict \<Rightarrow> jwt_error + dict" where
  "validate_exp now claims =
     (case map_of claims ''exp'' of
        None \<Rightarrow> Inr claims
      | Some v \<Rightarrow>
          (case claim_int v of
             None \<Rightarrow> Inl JWTClaimsError
           | Some e \<Rightarrow> if e < now then Inl ExpiredSignatureError else Inr claims))"

definition validate_aud :: "dict \<Rightarrow> bool" where
  "validate_aud claims = (map_of claims ''aud'' = None)"

definition validate_sub :: "dict \<Rightarrow> bool" where
  "validate_sub claims = (case map_of claims ''sub'' of None \<Rightarrow> True | Some v \<Rightarrow> is_string v)"

definition validate_jti :: "dict \<Rightarrow> bool" where
  "validate_jti claims = (case map_of claims ''jti'' of None \<Rightarrow> True | Some v \<Rightarrow> is_string v)"

definition validate_at_hash :: "dict \<Rightarrow> bool" where
  "validate_at_hash claims = (map_of claims ''at_hash'' = None)"

definition validate_claims :: "int \<Rightarrow> dict \<Rightarrow> jwt_error + dict" where
  "validate_claims now claims =
     (if \<not> validate_iat claims then Inl JWTClaimsError
      else if \<not> validate_nbf now claims then Inl JWTClaimsError
      else (case validate_exp now claims of
              Inl e \<Rightarrow> Inl e
            | Inr c \<Rightarrow>
                if \<not> validate_aud claims then Inl JWTClaimsError
                else if \<not> validate_sub claims then Inl JWTClaimsError
                else if \<not> validate_jti claims then Inl JWTClaimsError
                else if \<not> validate_at_hash claims then Inl JWTClaimsError
                else Inr claims))"

definition jwt_decode :: "int \<Rightarrow> jwt \<Rightarrow> string \<Rightarrow> string list \<Rightarrow> jwt_error + dict" where
  "jwt_decode now token key algorithms =
     (case token of
        Opaque s \<Rightarrow> Inl JWTError
      | Compact alg claims sg \<Rightarrow>
          if alg \<notin> set algorithms then Inl JWTError
          else if sg \<noteq> Hmac key alg claims then Inl JWTError
          else validate_claims now claims)"

subsection \<open>Configuration, users and the database session\<close>

text \<open>The fields of \<^verbatim>\<open>settings\<close> (\<^verbatim>\<open>core/config.py\<close>) that the two modules read.\<close>

record settings =
  SECRET_KEY :: string
  ALGORITHM :: string
  ACCESS_TOKEN_EXPIRE_MINUTES :: int

text \<open>
  The request body of registration (\<^verbatim>\<open>UserCreate\<close>) and the response of the three
  endpoints (\<^verbatim>\<open>Token\<close>), with the fields the handlers read and write.
\<close>

record UserCreate =
  name :: string
  password :: string
  confirm_password :: string
  categories :: "string list"

record Token =
  access_token :: jwt
  token_type :: string
  user_id :: int
  user_name :: string

text \<open>
  The \<^verbatim>\<open>User\<close> model. An object made by the constructor has the five fields the handler
  sets (\<open>UserFields\<close>); a row of the table has the key \<open>user_id\<close> as well, which the
  database assigns on insertion.
\<close>

record UserFields =
  name :: string
  password :: string
  categories :: string
  point_total :: int
  last_login_at :: "int option"

record User = UserFields +
  user_id :: int

text \<open>
  A session holds the committed table and the unit of work: the objects added and the
  loaded objects modified since the last commit. A commit writes the unit of work to the
  table, a rollback drops it. The database operations of a request that raise are given
  by a set \<open>flt\<close>; a query, a commit and a refresh raise when they are in it. A rollback
  does not raise, and neither does the reading of an attribute of a loaded object. A new
  row gets a key greater than every key in the table, 1 in an empty table.
\<close>

datatype change = Insert UserFields | Update User

record session =
  rows :: "User list"
  pending :: "change list"

datatype db_op = Query | Commit | Refresh

datatype db_error = OperationalError db_op | InvalidRequestError

definition fresh_id :: "User list \<Rightarrow> int" where
  "fresh_id rs = fold (\<lambda>u m. max m (user_id u + 1)) rs 1"

text \<open>
  \<open>flush\<close> applies a unit of work to a table, in order, and returns the new table with
  the keys it gave to the inserted objects. \<^verbatim>\<open>db.refresh(user)\<close> reloads the object that was
  added last, by the key the commit gave it.
\<close>

fun flush :: "change list \<Rightarrow> User list \<Rightarrow> User list \<times> int list" where
  "flush [] rs = (rs, [])"
| "flush (Insert d # cs) rs =
     (let (rs', ks) =
        flush cs (rs @ [\<lparr>UserFields.name = UserFields.name d,
                         UserFields.password = UserFields.password d,
                         UserFields.categories = UserFields.categories d,
                         point_total = point_total d,
                         last_login_at = last_login_at d,
                         User.user_id = fresh_id rs\<rparr>])
      in (rs', fresh_id rs # ks))"
| "flush (Update u # cs) rs =
     flush cs (map (\<lambda>r. if User.user_id r = User.user_id u then u else r) rs)"

definition query_first :: "db_op set \<Rightarrow> session \<Rightarrow> (User \<Rightarrow> bool) \<Rightarrow> db_error + User option" where
  "query_first flt db p =
     (if Query \<in> flt then Inl (OperationalError Query) else Inr (find p (rows db)))"

definition db_add :: "session \<Rightarrow> UserFields \<Rightarrow> session" where
  "db_add db obj = db\<lparr>pending := pending db @ [Insert obj]\<rparr>"

definition set_attr :: "session \<Rightarrow> User \<Rightarrow> session" where
  "set_attr db obj = db\<lparr>pending := pending db @ [Update obj]\<rparr>"

definition db_commit :: "db_op set \<Rightarrow> session \<Rightarrow> db_error + session \<times> int list" where
  "db_commit flt db =
     (if Commit \<in> flt then Inl (OperationalError Commit)
      else (let (rs, ks) = flush (pending db) (rows db)
            in Inr (db\<lparr>rows := rs, pending := []\<rparr>, ks)))"

definition db_rollback :: "session \<Rightarrow> session" where
  "db_rollback db = db\<lparr>pending := []\<rparr>"

definition db_refresh :: "db_op set \<Rightarrow> session \<Rightarrow> int list \<Rightarrow> db_error + User" where
  "db_refresh flt db ks =
     (if Refresh \<in> flt then Inl (OperationalError Refresh)
      else (case ks of
              [] \<Rightarrow> Inl InvalidRequestError
            | _ \<Rightarrow> (case find (\<lambda>r. User.user_id r = last ks) (rows db) of
                      None \<Rightarrow> Inl InvalidRequestError
                    | Some r \<Rightarrow> Inr r)))"

subsection \<open>Exceptions\<close>

text \<open>
  The handlers raise \<^verbatim>\<open>HTTPException\<close> with a status code, a message and, for some, the
  header \<^verbatim>\<open>WWW-Authenticate: Bearer\<close> (the flag). One constructor of \<open>detail\<close> stands for
  each message of the source; the message of a failed registration carries the text of the
  error underneath. A database error that no handler catches leaves the function as it is.
\<close>

datatype detail =
    Credentials_required
  | Invalid_token
  | Invalid_token_format
  | User_not_found
  | Bad_credentials
  | Password_mismatch
  | Name_taken
  | Registration_error db_error

datatype exn = HTTPException nat detail bool | Uncaught db_error

text \<open>
  The kinds of failure that the specification names, and the one each raised exception
  belongs to: a kind for each message. A database error that no handler catches has no
  kind in the specification; it is \<open>Unhandled\<close> here.
\<close>

datatype failure =
    Unauthenticated
  | InvalidToken
  | InvalidCredentials
  | PasswordMismatch
  | DuplicateName
  | PersistenceFailure
  | Unhandled

fun failure_of :: "exn \<Rightarrow> failure" where
  "failure_of (HTTPException code Credentials_required h) = Unauthenticated"
| "failure_of (HTTPException code User_not_found h) = Unauthenticated"
| "failure_of (HTTPException code Invalid_token h) = InvalidToken"
| "failure_of (HTTPException code Invalid_token_format h) = InvalidToken"
| "failure_of (HTTPException code Bad_credentials h) = InvalidCredentials"
| "failure_of (HTTPException code Password_mismatch h) = PasswordMismatch"
| "failure_of (HTTPException code Name_taken h) = DuplicateName"
| "failure_of (HTTPException code (Registration_error e) h) = PersistenceFailure"
| "failure_of (Uncaught e) = Unhandled"

subsection \<open>\<^verbatim>\<open>jwt.py\<close>\<close>

text \<open>
  \<^verbatim>\<open>authenticate_user\<close>: the whole body is inside \<^verbatim>\<open>try ... except Exception\<close>, which
  returns \<^verbatim>\<open>None\<close>.
\<close>

definition authenticate_user ::
  "(string \<Rightarrow> string \<Rightarrow> bool) \<Rightarrow> db_op set \<Rightarrow> session \<Rightarrow> string \<Rightarrow> string \<Rightarrow> User option" where
  "authenticate_user verify_password flt db username pw =
     (case query_first flt db (\<lambda>u. UserFields.name u = username) of
        Inl e \<Rightarrow> None
      | Inr None \<Rightarrow> None
      | Inr (Some user) \<Rightarrow>
          if verify_password pw (UserFields.password user) then Some user else None)"

text \<open>
  The coercion of the subject in \<^verbatim>\<open>get_current_user\<close> (the \<^verbatim>\<open>isinstance(user_id, str)\<close>
  block): a string goes through \<^verbatim>\<open>int\<close>, whose \<^verbatim>\<open>ValueError\<close> becomes a 401; any other
  value is kept.
\<close>

definition coerce_sub :: "json \<Rightarrow> exn + int" where
  "coerce_sub sub =
     (case sub of
        JStr s \<Rightarrow>
          (case py_int s of
             None \<Rightarrow> Inl (HTTPException 401 Invalid_token_format True)
           | Some n \<Rightarrow> Inr n)
      | JInt n \<Rightarrow> Inr n)"

definition get_current_user ::
  "settings \<Rightarrow> db_op set \<Rightarrow> int \<Rightarrow> session \<Rightarrow> jwt option \<Rightarrow> exn + User" where
  "get_current_user cfg flt now db token =
     (case token of
        None \<Rightarrow> Inl (HTTPException 401 Credentials_required True)
      | Some tok \<Rightarrow>
          (case jwt_decode now tok (SECRET_KEY cfg) [ALGORITHM cfg] of
             Inl e \<Rightarrow> Inl (HTTPException 401 Invalid_token True)
           | Inr payload \<Rightarrow>
               (case map_of payload ''sub'' of
                  None \<Rightarrow> Inl (HTTPException 401 Invalid_token True)
                | Some sub \<Rightarrow>
                    (case coerce_sub sub of
                       Inl err \<Rightarrow> Inl err
                     | Inr uid \<Rightarrow>
                         (case query_first flt db (\<lambda>u. User.user_id u = uid) of
                            Inl e \<Rightarrow> Inl (Uncaught e)
                          | Inr None \<Rightarrow> Inl (HTTPException 401 User_not_found True)
                          | Inr (Some user) \<Rightarrow> Inr user)))))"

text \<open>
  \<^verbatim>\<open>create_access_token\<close>: the test \<^verbatim>\<open>if expires_delta:\<close> is Python's truth value, which
  is false for \<^verbatim>\<open>None\<close> and for a \<^verbatim>\<open>timedelta\<close> of zero.
\<close>

definition create_access_token :: "settings \<Rightarrow> int \<Rightarrow> dict \<Rightarrow> int option \<Rightarrow> jwt" where
  "create_access_token cfg utcnow data expires_delta =
     (let expire =
            (case expires_delta of
               Some d \<Rightarrow>
                 if d \<noteq> 0 then utcnow + d
                 else utcnow + 60 * ACCESS_TOKEN_EXPIRE_MINUTES cfg
             | None \<Rightarrow> utcnow + 60 * ACCESS_TOKEN_EXPIRE_MINUTES cfg);
          to_encode = AList.update ''exp'' (JInt expire) data
      in jwt_encode to_encode (SECRET_KEY cfg) (ALGORITHM cfg))"

text \<open>
  The issuer of the specification, \<open>issue(identityKey, ttl)\<close>, is the call that all three
  handlers make: the subject is the key as a string.
\<close>

definition issue :: "settings \<Rightarrow> int \<Rightarrow> int \<Rightarrow> int option \<Rightarrow> jwt" where
  "issue cfg utcnow k ttl = create_access_token cfg utcnow [(''sub'', JStr (py_str k))] ttl"

definition claims_of :: "jwt \<Rightarrow> dict" where
  "claims_of t = (case t of Opaque s \<Rightarrow> [] | Compact alg claims sg \<Rightarrow> claims)"

subsection \<open>\<^verbatim>\<open>router.py\<close>\<close>

text \<open>
  The handlers take the clock twice: \<open>t1\<close> is the time written to the row, \<open>t2\<close> the time
  the token is issued at. In both login handlers the update of the login time is inside
  \<^verbatim>\<open>try ... except Exception\<close>: the attribute is set, the session committed, and a failed
  commit is rolled back. The \<^verbatim>\<open>response\<close> parameter, which gets two constant CORS headers
  on success, is left out.
\<close>

definition login_for_access_token ::
  "(string \<Rightarrow> string \<Rightarrow> bool) \<Rightarrow> settings \<Rightarrow> db_op set \<Rightarrow> int \<Rightarrow> int \<Rightarrow> session \<Rightarrow>
     string \<Rightarrow> string \<Rightarrow> (exn + Token) \<times> session" where
  "login_for_access_token verify_password cfg flt t1 t2 db username pw =
     (case authenticate_user verify_password flt db username pw of
        None \<Rightarrow> (Inl (HTTPException 401 Bad_credentials True), db)
      | Some user \<Rightarrow>
          (let db1 = set_attr db (user\<lparr>last_login_at := Some t1\<rparr>);
               db' = (case db_commit flt db1 of
                        Inl e \<Rightarrow> db_rollback db1
                      | Inr (db2, ks) \<Rightarrow> db2);
               access_token_expires = 60 * ACCESS_TOKEN_EXPIRE_MINUTES cfg;
               tok = create_access_token cfg t2
                       [(''sub'', JStr (py_str (User.user_id user)))]
                       (Some access_token_expires)
           in (Inr \<lparr>access_token = tok,
                    token_type = ''bearer'',
                    Token.user_id = User.user_id user,
                    user_name = UserFields.name user\<rparr>, db')))"

definition login ::
  "(string \<Rightarrow> string \<Rightarrow> bool) \<Rightarrow> settings \<Rightarrow> db_op set \<Rightarrow> int \<Rightarrow> int \<Rightarrow> session \<Rightarrow>
     string \<Rightarrow> string \<Rightarrow> (exn + Token) \<times> session" where
  "login verify_password cfg flt t1 t2 db username pw =
     (case authenticate_user verify_password flt db username pw of
        None \<Rightarrow> (Inl (HTTPException 401 Bad_credentials False), db)
      | Some user \<Rightarrow>
          (let db1 = set_attr db (user\<lparr>last_login_at := Some t1\<rparr>);
               db' = (case db_commit flt db1 of
                        Inl e \<Rightarrow> db_rollback db1
                      | Inr (db2, ks) \<Rightarrow> db2);
               access_token_expires = 60 * ACCESS_TOKEN_EXPIRE_MINUTES cfg;
               tok = create_access_token cfg t2
                       [(''sub'', JStr (py_str (User.user_id user)))]
                       (Some access_token_expires)
           in (Inr \<lparr>access_token = tok,
                    token_type = ''bearer'',
                    Token.user_id = User.user_id user,
                    user_name = UserFields.name user\<rparr>, db')))"

text \<open>
  \<^verbatim>\<open>register_user\<close>: the two checks come before the \<^verbatim>\<open>try\<close>; the construction of the
  user, \<^verbatim>\<open>add\<close>, \<^verbatim>\<open>commit\<close>, \<^verbatim>\<open>refresh\<close> and the making of the token are inside it, and
  its \<^verbatim>\<open>except Exception\<close> rolls the session back and raises the 500.
\<close>

definition register_user ::
  "(string \<Rightarrow> string) \<Rightarrow> settings \<Rightarrow> db_op set \<Rightarrow> int \<Rightarrow> int \<Rightarrow> session \<Rightarrow>
     UserCreate \<Rightarrow> (exn + Token) \<times> session" where
  "register_user get_password_hash cfg flt t1 t2 db user_data =
     (if UserCreate.password user_data \<noteq> confirm_password user_data
      then (Inl (HTTPException 400 Password_mismatch False), db)
      else
        (case query_first flt db (\<lambda>u. UserFields.name u = UserCreate.name user_data) of
           Inl e \<Rightarrow> (Inl (Uncaught e), db)
         | Inr (Some existing_user) \<Rightarrow> (Inl (HTTPException 400 Name_taken False), db)
         | Inr None \<Rightarrow>
             (let user =
                    \<lparr>UserFields.name = UserCreate.name user_data,
                     UserFields.password = get_password_hash (UserCreate.password user_data),
                     UserFields.categories =
                       (if UserCreate.categories user_data \<noteq> []
                        then join '','' (UserCreate.categories user_data) else []),
                     point_total = 0,
                     last_login_at = Some t1\<rparr>;
                  db1 = db_add db user
              in case db_commit flt db1 of
                   Inl e \<Rightarrow> (Inl (HTTPException 500 (Registration_error e) False), db_rollback db1)
                 | Inr (db2, ks) \<Rightarrow>
                     (case db_refresh flt db2 ks of
                        Inl e \<Rightarrow>
                          (Inl (HTTPException 500 (Registration_error e) False), db_rollback db2)
                      | Inr row \<Rightarrow>
                          (let access_token_expires = 60 * ACCESS_TOKEN_EXPIRE_MINUTES cfg;
                               tok = create_access_token cfg t2
                                       [(''sub'', JStr (py_str (User.user_id row)))]
                                       (Some access_token_expires)
                           in (Inr \<lparr>access_token = tok,
                                    token_type = ''bearer'',
                                    Token.user_id = User.user_id row,
                                    user_name = UserFields.name row\<rparr>, db2))))))"

subsection \<open>The failure kinds of the specification, and example values\<close>

text \<open>The result of a function with its exception replaced by the kind of failure.\<close>

definition outcome :: "exn + 'a \<Rightarrow> failure + 'a" where
  "outcome r = map_sum failure_of id r"




text \<open>
  The encoding of the categories in the words of the specification: each category but
  the last followed by a comma, then the last; nothing for no categories. \<open>split_on\<close> is
  the reading back (\<^verbatim>\<open>s.split(d)\<close>).
\<close>

definition comma_joined :: "string list \<Rightarrow> string" where
  "comma_joined cs =
     (if cs = [] then [] else concat (map (\<lambda>c. c @ '','') (butlast cs)) @ last cs)"

fun split_on :: "char \<Rightarrow> string \<Rightarrow> string list" where
  "split_on d [] = [[]]"
| "split_on d (c # cs) =
     (if c = d then [] # split_on d cs
      else (case split_on d cs of [] \<Rightarrow> [[c]] | w # ws \<Rightarrow> (c # w) # ws))"

text \<open>
  The response that the specification calls \<open>IssuedToken\<close>, for a user and the time of
  issue: the token that the issuer makes for the user's key with the configured lifetime,
  the literal token type, the key and the display name.
\<close>

definition issued_token :: "settings \<Rightarrow> int \<Rightarrow> User \<Rightarrow> Token" where
  "issued_token cfg utcnow user =
     \<lparr>access_token =
        issue cfg utcnow (User.user_id user) (Some (60 * ACCESS_TOKEN_EXPIRE_MINUTES cfg)),
      token_type = ''bearer'',
      Token.user_id = User.user_id user,
      user_name = UserFields.name user\<rparr>"

text \<open>
  The row that the specification prescribes for a new user: the given name, the hash of
  the given password, the categories in the encoding above, no points, the time of creation as
  the time of the last login, and the key that the database assigns next.
\<close>

definition new_user_row :: "(string \<Rightarrow> string) \<Rightarrow> int \<Rightarrow> session \<Rightarrow> UserCreate \<Rightarrow> User" where
  "new_user_row get_password_hash utcnow db user_data =
     \<lparr>UserFields.name = UserCreate.name user_data,
      UserFields.password = get_password_hash (UserCreate.password user_data),
      UserFields.categories = comma_joined (UserCreate.categories user_data),
      point_total = 0,
      last_login_at = Some utcnow,
      User.user_id = fresh_id (rows db)\<rparr>"

text \<open>
  A configuration, a toy password hasher and a table with one user, for the concrete
  instances below.
\<close>

definition demo_settings :: settings where
  "demo_settings = \<lparr>SECRET_KEY = ''k3y'', ALGORITHM = ''HS256'', ACCESS_TOKEN_EXPIRE_MINUTES = 30\<rparr>"

definition demo_hash :: "string \<Rightarrow> string" where
  "demo_hash p = ''hash:'' @ p"

definition demo_verify :: "string \<Rightarrow> string \<Rightarrow> bool" where
  "demo_verify p h = (h = demo_hash p)"

definition alice :: User where
  "alice = \<lparr>UserFields.name = ''alice'', UserFields.password = ''hash:secret'',
            UserFields.categories = ''x'', point_total = 0, last_login_at = Some 100,
            User.user_id = 1\<rparr>"

definition demo_db :: session where
  "demo_db = \<lparr>rows = [alice], pending = []\<rparr>"

definition empty_db :: session where
  "empty_db = \<lparr>rows = [], pending = []\<rparr>"

definition bob :: User where
  "bob = \<lparr>UserFields.name = ''bob'', UserFields.password = ''hash:pw'',
          UserFields.categories = ''x,y'', point_total = 0, last_login_at = Some 100,
          User.user_id = 2\<rparr>"

definition bob_form :: UserCreate where
  "bob_form = \<lparr>UserCreate.name = ''bob'', UserCreate.password = ''pw'',
               confirm_password = ''pw'', UserCreate.categories = [''x'', ''y'']\<rparr>"

definition alice_form :: UserCreate where
  "alice_form = \<lparr>UserCreate.name = ''alice'', UserCreate.password = ''secret'',
                 confirm_password = ''secret'', UserCreate.categories = [''x'']\<rparr>"


section \<open>Properties\<close>

subsection \<open>Decimal strings\<close>

lemma of_char_digit_char: "d < 10 \<Longrightarrow> (of_char (digit_char d) :: nat) = 48 + d"
  by (simp add: digit_char_def)

lemma digit_char_props:
  assumes "d < 10"
  shows "is_digit (digit_char d)" "\<not> is_space (digit_char d)" "digit_val (digit_char d) = d"
  using assms by (simp_all add: is_digit_def is_space_def digit_val_def of_char_digit_char)

lemma minus_not_space: "\<not> is_space (CHR ''-'')"
  by (simp add: is_space_def)

lemma digit_not_sign: "is_digit c \<Longrightarrow> c \<noteq> CHR ''-'' \<and> c \<noteq> CHR ''+''"
  by (auto simp: is_digit_def)

lemma str_nat_digits: "c \<in> set (str_nat n) \<Longrightarrow> is_digit c \<and> \<not> is_space c"
proof (induction n arbitrary: c rule: str_nat.induct)
  case (1 n)
  show ?case
  proof (cases "n < 10")
    case True
    with "1.prems" show ?thesis
      by (simp add: str_nat.simps [of n] digit_char_props)
  next
    case False
    with "1.prems" have "c \<in> set (str_nat (n div 10)) \<or> c = digit_char (n mod 10)"
      by (auto simp: str_nat.simps [of n])
    with False "1.IH" show ?thesis
      by (auto simp: digit_char_props)
  qed
qed

lemma str_nat_not_Nil: "str_nat n \<noteq> []"
  by (simp add: str_nat.simps [of n])

lemma digits_val_all_digits:
  "\<forall>c \<in> set ds. is_digit c \<Longrightarrow> ds \<noteq> [] \<or> p \<Longrightarrow>
     digits_val ds acc p = Some (foldl (\<lambda>a c. a * 10 + digit_val c) acc ds)"
  by (induction ds arbitrary: acc p) auto

lemma foldl_str_nat: "foldl (\<lambda>a c. a * 10 + digit_val c) 0 (str_nat n) = n"
proof (induction n rule: str_nat.induct)
  case (1 n)
  show ?case
  proof (cases "n < 10")
    case True
    then show ?thesis by (simp add: str_nat.simps [of n] digit_char_props)
  next
    case False
    with "1.IH" show ?thesis
      by (simp add: str_nat.simps [of n] digit_char_props)
  qed
qed

lemma digits_val_str_nat: "digits_val (str_nat n) 0 False = Some n"
  using digits_val_all_digits [of "str_nat n" False 0]
  by (simp add: str_nat_digits str_nat_not_Nil foldl_str_nat)

lemma dropWhile_id: "s = [] \<or> \<not> P (hd s) \<Longrightarrow> dropWhile P s = s"
  by (cases s) auto

lemma strip_id: "s \<noteq> [] \<Longrightarrow> \<not> is_space (hd s) \<Longrightarrow> \<not> is_space (last s) \<Longrightarrow> strip s = s"
  by (simp add: strip_def dropWhile_id hd_rev)

lemma py_int_py_str: "py_int (py_str k) = Some k"
proof (cases "k < 0")
  case True
  let ?ds = "str_nat (nat (- k))"
  have ne: "?ds \<noteq> []" by (rule str_nat_not_Nil)
  have "\<not> is_space (last (CHR ''-'' # ?ds))"
    using ne str_nat_digits [of "last ?ds" "nat (- k)"] by simp
  then have "strip (CHR ''-'' # ?ds) = CHR ''-'' # ?ds"
    by (intro strip_id) (simp_all add: minus_not_space)
  with True show ?thesis
    by (simp add: py_int_def py_str_def digits_val_str_nat)
next
  case False
  let ?ds = "str_nat (nat k)"
  have ne: "?ds \<noteq> []" by (rule str_nat_not_Nil)
  then obtain c cs where cs: "?ds = c # cs" by (cases ?ds) auto
  have d: "is_digit c" "\<not> is_space c" using str_nat_digits [of c "nat k"] cs by simp_all
  have "\<not> is_space (last ?ds)" using ne str_nat_digits [of "last ?ds" "nat k"] by simp
  then have "strip ?ds = ?ds"
    using ne d cs by (intro strip_id) simp_all
  moreover have "digits_val (c # cs) 0 False = Some (nat k)"
    using digits_val_str_nat [of "nat k"] cs by simp
  ultimately show ?thesis
    using False cs digit_not_sign [OF d(1)]
    by (simp add: py_int_def py_str_def)
qed

lemma digits_val_chars:
  "digits_val cs acc p = Some n \<Longrightarrow>
     (\<forall>c \<in> set cs. is_digit c \<or> c = CHR ''_'') \<and> (p \<or> (\<exists>c \<in> set cs. is_digit c))"
proof (induction cs arbitrary: acc p)
  case Nil
  then show ?case by (simp split: if_splits)
next
  case (Cons c cs)
  show ?case
  proof (cases "is_digit c")
    case True
    with Cons.prems have "digits_val cs (acc * 10 + digit_val c) True = Some n" by simp
    from Cons.IH [OF this] True show ?thesis by simp
  next
    case False
    with Cons.prems have u: "c = CHR ''_''" "p" and r: "digits_val cs acc False = Some n"
      by (simp_all split: if_splits)
    from Cons.IH [OF r] u show ?thesis by auto
  qed
qed

lemma set_dropWhile_cases: "c \<in> set s \<Longrightarrow> c \<in> set (dropWhile P s) \<or> P c"
  by (induction s) (auto split: if_splits)

lemma set_strip_subset: "c \<in> set (strip s) \<Longrightarrow> c \<in> set s"
proof -
  assume "c \<in> set (strip s)"
  then have "c \<in> set (dropWhile is_space (rev (dropWhile is_space s)))"
    by (simp add: strip_def)
  then have "c \<in> set (rev (dropWhile is_space s))" by (rule set_dropWhileD)
  then have "c \<in> set (dropWhile is_space s)" by simp
  then show ?thesis by (rule set_dropWhileD)
qed

lemma set_strip_cases: "c \<in> set s \<Longrightarrow> c \<in> set (strip s) \<or> is_space c"
proof -
  assume "c \<in> set s"
  then have "c \<in> set (dropWhile is_space s) \<or> is_space c" by (rule set_dropWhile_cases)
  then have "c \<in> set (rev (dropWhile is_space s)) \<or> is_space c" by simp
  then have "c \<in> set (dropWhile is_space (rev (dropWhile is_space s))) \<or> is_space c"
    using set_dropWhile_cases [of c "rev (dropWhile is_space s)" is_space] by blast
  then show ?thesis by (simp add: strip_def)
qed

lemma py_int_strip_chars:
  assumes "py_int s = Some n"
  shows "(\<forall>c \<in> set (strip s). is_digit c \<or> c = CHR ''+'' \<or> c = CHR ''-'' \<or> c = CHR ''_'') \<and>
         (\<exists>c \<in> set (strip s). is_digit c)"
proof (cases "strip s")
  case Nil
  with assms show ?thesis by (simp add: py_int_def)
next
  case (Cons c cs)
  show ?thesis
  proof (cases "c = CHR ''-'' \<or> c = CHR ''+''")
    case True
    with assms Cons obtain m where "digits_val cs 0 False = Some m"
      by (auto simp: py_int_def split: if_splits)
    from digits_val_chars [OF this] Cons True show ?thesis by auto
  next
    case False
    with assms Cons obtain m where "digits_val (c # cs) 0 False = Some m"
      by (auto simp: py_int_def split: if_splits)
    from digits_val_chars [OF this] Cons show ?thesis by auto
  qed
qed

lemma py_int_chars:
  assumes "py_int s = Some n"
  shows "(\<forall>c \<in> set s. is_digit c \<or> is_space c \<or> c = CHR ''+'' \<or> c = CHR ''-'' \<or> c = CHR ''_'') \<and>
         (\<exists>c \<in> set s. is_digit c)"
  using py_int_strip_chars [OF assms] set_strip_subset [of _ s] set_strip_cases [of _ s]
  by blast



subsection \<open>The strings that \<^verbatim>\<open>int\<close> reads\<close>


















subsection \<open>Tokens\<close>

lemma find_id_Some: "find P xs = Some x \<Longrightarrow> P x \<and> x \<in> set xs"
  by (auto simp: find_Some_iff)

lemma find_exists: "\<exists>x \<in> set xs. P x \<Longrightarrow> \<exists>x. find P xs = Some x"
  by (cases "find P xs") (auto simp: find_None_iff)

lemma claims_of_create:
  "claims_of (create_access_token cfg now data ttl) =
     AList.update ''exp''
       (JInt (now + (case ttl of None \<Rightarrow> 60 * ACCESS_TOKEN_EXPIRE_MINUTES cfg
                     | Some d \<Rightarrow> if d \<noteq> 0 then d else 60 * ACCESS_TOKEN_EXPIRE_MINUTES cfg))) data"
  by (simp add: create_access_token_def claims_of_def jwt_encode_def Let_def split: option.splits)

lemmas jose_defs =
  validate_claims_def validate_iat_def validate_nbf_def validate_exp_def validate_aud_def
  validate_sub_def validate_jti_def validate_at_hash_def claim_int_def is_string_def

lemma decode_create:
  "jwt_decode now (create_access_token cfg t0 data ttl) (SECRET_KEY cfg) [ALGORITHM cfg] =
     validate_claims now (claims_of (create_access_token cfg t0 data ttl))"
  by (simp add: create_access_token_def claims_of_def jwt_encode_def jwt_decode_def Let_def)

lemma claims_of_issue:
  "claims_of (issue cfg t0 k ttl) =
     [(''sub'', JStr (py_str k)),
      (''exp'', JInt (t0 + (case ttl of None \<Rightarrow> 60 * ACCESS_TOKEN_EXPIRE_MINUTES cfg
                     | Some d \<Rightarrow> if d \<noteq> 0 then d else 60 * ACCESS_TOKEN_EXPIRE_MINUTES cfg)))]"
  by (simp add: issue_def claims_of_create)

lemma decode_issue:
  "jwt_decode now (issue cfg t0 k ttl) (SECRET_KEY cfg) [ALGORITHM cfg] =
     validate_claims now (claims_of (issue cfg t0 k ttl))"
  by (simp add: issue_def decode_create)

lemma get_current_user_issue:
  "get_current_user cfg flt now db (Some (issue cfg t0 k (Some ttl))) =
     (if t0 + (if ttl \<noteq> 0 then ttl else 60 * ACCESS_TOKEN_EXPIRE_MINUTES cfg) < now
      then Inl (HTTPException 401 Invalid_token True)
      else (case query_first flt db (\<lambda>u. User.user_id u = k) of
              Inl e \<Rightarrow> Inl (Uncaught e)
            | Inr None \<Rightarrow> Inl (HTTPException 401 User_not_found True)
            | Inr (Some user) \<Rightarrow> Inr user))"
  by (simp add: get_current_user_def decode_issue claims_of_issue jose_defs
      coerce_sub_def py_int_py_str)

subsection \<open>The resolver, case by case\<close>

lemma get_current_user_None:
  "get_current_user cfg flt now db None = Inl (HTTPException 401 Credentials_required True)"
  by (simp add: get_current_user_def)

lemma get_current_user_decode_error:
  "jwt_decode now tok (SECRET_KEY cfg) [ALGORITHM cfg] = Inl e \<Longrightarrow>
     get_current_user cfg flt now db (Some tok) = Inl (HTTPException 401 Invalid_token True)"
  by (simp add: get_current_user_def)

lemma get_current_user_no_sub:
  "jwt_decode now tok (SECRET_KEY cfg) [ALGORITHM cfg] = Inr payload \<Longrightarrow>
   map_of payload ''sub'' = None \<Longrightarrow>
     get_current_user cfg flt now db (Some tok) = Inl (HTTPException 401 Invalid_token True)"
  by (simp add: get_current_user_def)

lemma get_current_user_sub:
  "jwt_decode now tok (SECRET_KEY cfg) [ALGORITHM cfg] = Inr payload \<Longrightarrow>
   map_of payload ''sub'' = Some sub \<Longrightarrow>
     get_current_user cfg flt now db (Some tok) =
       (case coerce_sub sub of
          Inl err \<Rightarrow> Inl err
        | Inr uid \<Rightarrow>
            (case query_first flt db (\<lambda>u. User.user_id u = uid) of
               Inl e \<Rightarrow> Inl (Uncaught e)
             | Inr None \<Rightarrow> Inl (HTTPException 401 User_not_found True)
             | Inr (Some user) \<Rightarrow> Inr user))"
  by (simp add: get_current_user_def)

lemma get_current_user_Inr:
  assumes "get_current_user cfg flt now db t = Inr u"
  shows "\<exists>tok payload sub. t = Some tok \<and>
           jwt_decode now tok (SECRET_KEY cfg) [ALGORITHM cfg] = Inr payload \<and>
           map_of payload ''sub'' = Some sub \<and> coerce_sub sub = Inr (User.user_id u) \<and>
           Query \<notin> flt \<and> find (\<lambda>r. User.user_id r = User.user_id u) (rows db) = Some u"
  using assms
  by (auto simp: get_current_user_def query_first_def find_Some_iff
      split: option.splits sum.splits if_splits)





subsection \<open>The authenticator and the login handlers\<close>

lemma find_distinct_iff:
  "distinct (map f xs) \<Longrightarrow> find (\<lambda>x. f x = k) xs = Some x \<longleftrightarrow> x \<in> set xs \<and> f x = k"
  by (induction xs) (auto simp: rev_image_eqI)

lemma authenticate_user_Some_iff:
  "authenticate_user v flt db n p = Some u \<longleftrightarrow>
     Query \<notin> flt \<and> find (\<lambda>r. UserFields.name r = n) (rows db) = Some u \<and>
     v p (UserFields.password u)"
  by (auto simp: authenticate_user_def query_first_def split: option.splits)

lemma authenticate_user_None_iff:
  "authenticate_user v flt db n p = None \<longleftrightarrow>
     Query \<in> flt \<or> find (\<lambda>r. UserFields.name r = n) (rows db) = None \<or>
     (\<exists>r. find (\<lambda>r. UserFields.name r = n) (rows db) = Some r \<and> \<not> v p (UserFields.password r))"
  by (auto simp: authenticate_user_def query_first_def split: option.splits)

lemma authenticate_alice:
  "authenticate_user demo_verify {} demo_db ''alice'' ''secret'' = Some alice"
  "authenticate_user demo_verify {} demo_db ''alice'' ''wrong'' = None"
  "authenticate_user demo_verify {} demo_db ''bob'' ''secret'' = None"
  "authenticate_user demo_verify {Query} demo_db ''alice'' ''secret'' = None"
  "authenticate_user demo_verify {Commit} demo_db ''alice'' ''secret'' = Some alice"
  by (simp_all add: authenticate_user_def query_first_def demo_db_def alice_def demo_verify_def
      demo_hash_def)

lemma touch_commit_fault:
  "Commit \<in> flt \<Longrightarrow>
     (case db_commit flt (set_attr db obj) of
        Inl e \<Rightarrow> db_rollback (set_attr db obj)
      | Inr (db2, ks) \<Rightarrow> db2) = db\<lparr>pending := []\<rparr>"
  by (simp add: db_commit_def db_rollback_def set_attr_def)

lemma touch_commit_ok:
  "Commit \<notin> flt \<Longrightarrow> pending db = [] \<Longrightarrow>
     (case db_commit flt (set_attr db obj) of
        Inl e \<Rightarrow> db_rollback (set_attr db obj)
      | Inr (db2, ks) \<Rightarrow> db2) =
     db\<lparr>rows := map (\<lambda>r. if User.user_id r = User.user_id obj then obj else r) (rows db)\<rparr>"
  by (simp add: db_commit_def set_attr_def)

lemma login_Some:
  "authenticate_user v flt db n p = Some user \<Longrightarrow>
     login v cfg flt t1 t2 db n p =
       (Inr (issued_token cfg t2 user),
        (case db_commit flt (set_attr db (user\<lparr>last_login_at := Some t1\<rparr>)) of
           Inl e \<Rightarrow> db_rollback (set_attr db (user\<lparr>last_login_at := Some t1\<rparr>))
         | Inr (db2, ks) \<Rightarrow> db2))"
  by (simp add: login_def issued_token_def issue_def Let_def)

lemma login_None:
  "authenticate_user v flt db n p = None \<Longrightarrow>
     login v cfg flt t1 t2 db n p = (Inl (HTTPException 401 Bad_credentials False), db)"
  by (simp add: login_def)

lemma login_for_access_token_Some:
  "authenticate_user v flt db n p = Some user \<Longrightarrow>
     login_for_access_token v cfg flt t1 t2 db n p =
       (Inr (issued_token cfg t2 user),
        (case db_commit flt (set_attr db (user\<lparr>last_login_at := Some t1\<rparr>)) of
           Inl e \<Rightarrow> db_rollback (set_attr db (user\<lparr>last_login_at := Some t1\<rparr>))
         | Inr (db2, ks) \<Rightarrow> db2))"
  by (simp add: login_for_access_token_def issued_token_def issue_def Let_def)

lemma login_for_access_token_None:
  "authenticate_user v flt db n p = None \<Longrightarrow>
     login_for_access_token v cfg flt t1 t2 db n p =
       (Inl (HTTPException 401 Bad_credentials True), db)"
  by (simp add: login_for_access_token_def)

lemma decode_issued:
  "now \<le> t + 60 * ACCESS_TOKEN_EXPIRE_MINUTES cfg \<Longrightarrow>
     jwt_decode now (issue cfg t k (Some (60 * ACCESS_TOKEN_EXPIRE_MINUTES cfg)))
       (SECRET_KEY cfg) [ALGORITHM cfg] =
     Inr [(''sub'', JStr (py_str k)), (''exp'', JInt (t + 60 * ACCESS_TOKEN_EXPIRE_MINUTES cfg))]"
  by (simp add: decode_issue claims_of_issue jose_defs)

subsection \<open>Registration, case by case\<close>

lemma fold_max_ge: "(a::int) \<le> fold (\<lambda>u m. max m (g u)) rs a"
proof (induction rs arbitrary: a)
  case Nil
  show ?case by simp
next
  case (Cons r rs)
  have "a \<le> max a (g r)" by simp
  also have "\<dots> \<le> fold (\<lambda>u m. max m (g u)) rs (max a (g r))" by (rule Cons.IH)
  finally show ?case by simp
qed

lemma fold_max_bound: "u \<in> set rs \<Longrightarrow> g u \<le> fold (\<lambda>u m. max m (g u)) rs (a::int)"
proof (induction rs arbitrary: a)
  case Nil
  then show ?case by simp
next
  case (Cons r rs)
  show ?case
  proof (cases "u = r")
    case True
    have "g r \<le> max a (g r)" by simp
    also have "\<dots> \<le> fold (\<lambda>u m. max m (g u)) rs (max a (g r))" by (rule fold_max_ge)
    finally show ?thesis using True by simp
  next
    case False
    with Cons.prems have "u \<in> set rs" by simp
    from Cons.IH [OF this] show ?thesis by simp
  qed
qed

lemma fresh_id_gt: "u \<in> set rs \<Longrightarrow> User.user_id u < fresh_id rs"
  using fold_max_bound [of u rs "\<lambda>u. User.user_id u + 1" 1] by (simp add: fresh_id_def)

lemma fresh_id_pos: "1 \<le> fresh_id rs"
  using fold_max_ge [of 1 "\<lambda>u. User.user_id u + 1" rs] by (simp add: fresh_id_def)

lemma find_app:
  "find P (xs @ ys) = (case find P xs of None \<Rightarrow> find P ys | Some x \<Rightarrow> Some x)"
  by (induction xs) simp_all

lemma find_fresh:
  "User.user_id row = fresh_id rs \<Longrightarrow>
     find (\<lambda>r. User.user_id r = fresh_id rs) (rs @ [row]) = Some row"
proof -
  assume k: "User.user_id row = fresh_id rs"
  have "find (\<lambda>r. User.user_id r = fresh_id rs) (rs @ [row]) =
      (case find (\<lambda>r. User.user_id r = fresh_id rs) rs of
         None \<Rightarrow> find (\<lambda>r. User.user_id r = fresh_id rs) [row] | Some x \<Rightarrow> Some x)"
    by (rule find_app)
  moreover have "find (\<lambda>r. User.user_id r = fresh_id rs) rs = None"
    using fresh_id_gt [of _ rs] by (fastforce simp: find_None_iff)
  ultimately show ?thesis using k by simp
qed

lemma join_categories:
  "(if cs \<noteq> [] then join '','' cs else []) = join '','' cs"
  by simp

lemma join_closed_form:
  "join sep cs = (if cs = [] then [] else concat (map (\<lambda>c. c @ sep) (butlast cs)) @ last cs)"
  by (induction sep cs rule: join.induct) simp_all

lemma join_comma_joined: "join '','' cs = comma_joined cs"
  unfolding comma_joined_def by (rule join_closed_form)

lemma split_on_plain: "d \<notin> set x \<Longrightarrow> split_on d x = [x]"
  by (induction x) auto

lemma split_on_append: "d \<notin> set x \<Longrightarrow> split_on d (x @ d # rest) = x # split_on d rest"
  by (induction x) auto

lemma split_on_join:
  "cs \<noteq> [] \<Longrightarrow> \<forall>c \<in> set cs. d \<notin> set c \<Longrightarrow> split_on d (join [d] cs) = cs"
proof (induction "[d]" cs rule: join.induct)
  case 1
  then show ?case by simp
next
  case (2 x)
  then show ?case by (simp add: split_on_plain)
next
  case (3 x y ys)
  then show ?case by (simp add: split_on_append)
qed

lemma commit_add:
  "pending db = [] \<Longrightarrow> Commit \<notin> flt \<Longrightarrow>
     db_commit flt (db_add db obj) =
       Inr (db\<lparr>rows := rows db @
                [\<lparr>UserFields.name = UserFields.name obj,
                  UserFields.password = UserFields.password obj,
                  UserFields.categories = UserFields.categories obj,
                  point_total = point_total obj,
                  last_login_at = last_login_at obj,
                  User.user_id = fresh_id (rows db)\<rparr>]\<rparr>, [fresh_id (rows db)])"
  by (simp add: db_commit_def db_add_def)

lemma commit_fault: "Commit \<in> flt \<Longrightarrow> db_commit flt db = Inl (OperationalError Commit)"
  by (simp add: db_commit_def)

lemma rollback_add: "pending db = [] \<Longrightarrow> db_rollback (db_add db obj) = db"
  by (simp add: db_rollback_def db_add_def)

lemma rollback_clean: "pending db = [] \<Longrightarrow> db_rollback (db\<lparr>rows := rs\<rparr>) = db\<lparr>rows := rs\<rparr>"
  by (simp add: db_rollback_def)

lemma refresh_new:
  "User.user_id row = fresh_id rs \<Longrightarrow>
     db_refresh flt (db\<lparr>rows := rs @ [row]\<rparr>) [fresh_id rs] =
       (if Refresh \<in> flt then Inl (OperationalError Refresh) else Inr row)"
  by (simp add: db_refresh_def find_fresh)

lemma register_user_mismatch:
  "UserCreate.password ud \<noteq> confirm_password ud \<Longrightarrow>
     register_user h cfg flt t1 t2 db ud = (Inl (HTTPException 400 Password_mismatch False), db)"
  by (simp add: register_user_def)

lemma register_user_query_fault:
  "UserCreate.password ud = confirm_password ud \<Longrightarrow> Query \<in> flt \<Longrightarrow>
     register_user h cfg flt t1 t2 db ud = (Inl (Uncaught (OperationalError Query)), db)"
  by (simp add: register_user_def query_first_def)

lemma register_user_duplicate:
  assumes "UserCreate.password ud = confirm_password ud" "Query \<notin> flt"
    "\<exists>u \<in> set (rows db). UserFields.name u = UserCreate.name ud"
  shows "register_user h cfg flt t1 t2 db ud = (Inl (HTTPException 400 Name_taken False), db)"
proof -
  from assms(3) obtain u where "find (\<lambda>u. UserFields.name u = UserCreate.name ud) (rows db) = Some u"
    using find_exists [of "rows db" "\<lambda>u. UserFields.name u = UserCreate.name ud"] by blast
  with assms(1,2) show ?thesis
    by (simp add: register_user_def query_first_def)
qed

lemma register_user_create:
  assumes "pending db = []" "UserCreate.password ud = confirm_password ud" "Query \<notin> flt"
    "\<not> (\<exists>u \<in> set (rows db). UserFields.name u = UserCreate.name ud)"
  shows "register_user h cfg flt t1 t2 db ud =
    (if Commit \<in> flt
       then (Inl (HTTPException 500 (Registration_error (OperationalError Commit)) False), db)
     else if Refresh \<in> flt
       then (Inl (HTTPException 500 (Registration_error (OperationalError Refresh)) False),
             db\<lparr>rows := rows db @ [new_user_row h t1 db ud]\<rparr>)
     else (Inr (issued_token cfg t2 (new_user_row h t1 db ud)),
           db\<lparr>rows := rows db @ [new_user_row h t1 db ud]\<rparr>))"
proof -
  let ?obj = "\<lparr>UserFields.name = UserCreate.name ud,
      UserFields.password = h (UserCreate.password ud),
      UserFields.categories = join '','' (UserCreate.categories ud),
      point_total = 0, last_login_at = Some t1\<rparr>"
  let ?row = "new_user_row h t1 db ud"
  have q: "query_first flt db (\<lambda>u. UserFields.name u = UserCreate.name ud) = Inr None"
    using assms(3,4) by (simp add: query_first_def find_None_iff)
  have reg: "register_user h cfg flt t1 t2 db ud =
      (case db_commit flt (db_add db ?obj) of
         Inl e \<Rightarrow> (Inl (HTTPException 500 (Registration_error e) False), db_rollback (db_add db ?obj))
       | Inr (db2, ks) \<Rightarrow>
           (case db_refresh flt db2 ks of
              Inl e \<Rightarrow> (Inl (HTTPException 500 (Registration_error e) False), db_rollback db2)
            | Inr row \<Rightarrow> (Inr (issued_token cfg t2 row), db2)))"
    unfolding register_user_def join_categories
    using assms(2) q
    by (simp add: Let_def issued_token_def issue_def split: sum.splits prod.splits)
  show ?thesis
  proof (cases "Commit \<in> flt")
    case True
    then show ?thesis
      unfolding reg by (simp add: commit_fault rollback_add [OF assms(1)])
  next
    case False
    have id: "User.user_id ?row = fresh_id (rows db)" by (simp add: new_user_row_def)
    have c: "db_commit flt (db_add db ?obj) =
        Inr (db\<lparr>rows := rows db @ [?row]\<rparr>, [fresh_id (rows db)])"
      using commit_add [OF assms(1) False, of ?obj]
      by (simp add: new_user_row_def join_comma_joined)
    show ?thesis
      unfolding reg c using False
      by (simp add: refresh_new [OF id] rollback_clean [OF assms(1)])
  qed
qed

lemma register_user_cases:
  assumes "pending db = []"
  shows "register_user h cfg flt t1 t2 db ud =
    (if UserCreate.password ud \<noteq> confirm_password ud
       then (Inl (HTTPException 400 Password_mismatch False), db)
     else if Query \<in> flt then (Inl (Uncaught (OperationalError Query)), db)
     else if \<exists>u \<in> set (rows db). UserFields.name u = UserCreate.name ud
       then (Inl (HTTPException 400 Name_taken False), db)
     else if Commit \<in> flt
       then (Inl (HTTPException 500 (Registration_error (OperationalError Commit)) False), db)
     else if Refresh \<in> flt
       then (Inl (HTTPException 500 (Registration_error (OperationalError Refresh)) False),
             db\<lparr>rows := rows db @ [new_user_row h t1 db ud]\<rparr>)
     else (Inr (issued_token cfg t2 (new_user_row h t1 db ud)),
           db\<lparr>rows := rows db @ [new_user_row h t1 db ud]\<rparr>))"
  using register_user_mismatch [of ud h cfg flt t1 t2 db]
    register_user_query_fault [of ud flt h cfg t1 t2 db]
    register_user_duplicate [of ud flt db h cfg t1 t2]
    register_user_create [OF assms, of ud flt h cfg t1 t2]
  by (cases "UserCreate.password ud = confirm_password ud"; cases "Query \<in> flt";
      cases "\<exists>u \<in> set (rows db). UserFields.name u = UserCreate.name ud") simp_all

lemma register_alice:
  "register_user demo_hash demo_settings {} 100 101 empty_db alice_form =
     (Inr (issued_token demo_settings 101 alice), demo_db)"
  "register_user demo_hash demo_settings {Refresh} 100 101 empty_db alice_form =
     (Inl (HTTPException 500 (Registration_error (OperationalError Refresh)) False), demo_db)"
  "register_user demo_hash demo_settings {Commit} 100 101 empty_db alice_form =
     (Inl (HTTPException 500 (Registration_error (OperationalError Commit)) False), empty_db)"
  "register_user demo_hash demo_settings {} 100 101 demo_db alice_form =
     (Inl (HTTPException 400 Name_taken False), demo_db)"
  by (simp_all add: register_user_cases empty_db_def alice_form_def new_user_row_def
      fresh_id_def demo_hash_def alice_def demo_db_def comma_joined_def)

lemma register_bob:
  "register_user demo_hash demo_settings {} 100 101 demo_db bob_form =
     (Inr (issued_token demo_settings 101 bob), \<lparr>rows = [alice, bob], pending = []\<rparr>)"
  by (simp add: register_user_cases demo_db_def bob_form_def new_user_row_def
      fresh_id_def demo_hash_def alice_def bob_def comma_joined_def)

lemma register_user_Inr:
  assumes "pending db = []" "register_user h cfg flt t1 t2 db ud = (Inr r, db')"
  shows "r = issued_token cfg t2 (new_user_row h t1 db ud)"
    and "db' = db\<lparr>rows := rows db @ [new_user_row h t1 db ud]\<rparr>"
    and "\<not> (\<exists>u \<in> set (rows db). UserFields.name u = UserCreate.name ud)"
  using assms(2) unfolding register_user_cases [OF assms(1)]
  by (simp_all split: if_splits)

lemma register_user_failures:
  assumes "pending db = []"
  shows "UserCreate.password ud \<noteq> confirm_password ud \<Longrightarrow>
           outcome (fst (register_user h cfg flt t1 t2 db ud)) = Inl PasswordMismatch \<and>
           snd (register_user h cfg flt t1 t2 db ud) = db"
    and "UserCreate.password ud = confirm_password ud \<Longrightarrow> Query \<notin> flt \<Longrightarrow>
           \<exists>u \<in> set (rows db). UserFields.name u = UserCreate.name ud \<Longrightarrow>
           outcome (fst (register_user h cfg flt t1 t2 db ud)) = Inl DuplicateName \<and>
           snd (register_user h cfg flt t1 t2 db ud) = db"
    and "UserCreate.password ud = confirm_password ud \<Longrightarrow> Query \<notin> flt \<Longrightarrow>
           \<not> (\<exists>u \<in> set (rows db). UserFields.name u = UserCreate.name ud) \<Longrightarrow> Commit \<in> flt \<Longrightarrow>
           outcome (fst (register_user h cfg flt t1 t2 db ud)) = Inl PersistenceFailure \<and>
           snd (register_user h cfg flt t1 t2 db ud) = db"
    and "fst (register_user h cfg flt t1 t2 db ud) = Inl e \<Longrightarrow> Refresh \<notin> flt \<Longrightarrow>
           snd (register_user h cfg flt t1 t2 db ud) = db"
  unfolding register_user_cases [OF assms]
  by (auto simp: outcome_def split: if_splits)

subsection \<open>The issuer and the token response\<close>

lemma issuer_postcondition:
  "ttl \<noteq> 0 \<Longrightarrow>
     claims_of (issue cfg now k (Some ttl)) =
       [(''sub'', JStr (py_str k)), (''exp'', JInt (now + ttl))]"
  "claims_of (issue cfg now k None) =
     [(''sub'', JStr (py_str k)), (''exp'', JInt (now + 60 * ACCESS_TOKEN_EXPIRE_MINUTES cfg))]"
  "issue cfg now k opt =
     jwt_encode (claims_of (issue cfg now k opt)) (SECRET_KEY cfg) (ALGORITHM cfg)"
  by (simp_all add: claims_of_issue)
    (simp add: issue_def create_access_token_def claims_of_def jwt_encode_def Let_def
      split: option.splits)

lemma issued_token_fields:
  "token_type (issued_token cfg t u) = ''bearer''"
  "Token.user_id (issued_token cfg t u) = User.user_id u"
  "user_name (issued_token cfg t u) = UserFields.name u"
  "map_of (claims_of (access_token (issued_token cfg t u))) ''sub'' =
     Some (JStr (py_str (User.user_id u)))"
  by (simp_all add: issued_token_def claims_of_issue)

subsection \<open>The claims\<close>

text \<open>
  C1. Round trip with expiry: resolving a token issued for the key \<open>k\<close> with the lifetime
  \<open>ttl\<close> returns a stored user whose key is \<open>k\<close>, provided such a user exists, the
  lookup completes and \<open>ttl\<close> has not elapsed (a lifetime of zero is replaced by the
  configured one, which then must not be negative); a token issued with a negative
  lifetime fails with the invalid-token 401 at any later time and resolves to no user.
\<close>

theorem resolve_issue_round_trip:
  "((\<exists>u \<in> set (rows db). User.user_id u = k) \<and> Query \<notin> flt \<and> now \<le> t0 + ttl \<and>
      (ttl = 0 \<longrightarrow> 0 \<le> ACCESS_TOKEN_EXPIRE_MINUTES cfg) \<longrightarrow>
      (\<exists>u \<in> set (rows db). User.user_id u = k \<and>
         get_current_user cfg flt now db (Some (issue cfg t0 k (Some ttl))) = Inr u)) \<and>
   (ttl < 0 \<and> t0 \<le> now \<longrightarrow>
      get_current_user cfg flt now db (Some (issue cfg t0 k (Some ttl))) =
        Inl (HTTPException 401 Invalid_token True) \<and>
      outcome (get_current_user cfg flt now db (Some (issue cfg t0 k (Some ttl)))) =
        Inl InvalidToken)"
proof (intro conjI impI)
  assume h: "(\<exists>u \<in> set (rows db). User.user_id u = k) \<and> Query \<notin> flt \<and> now \<le> t0 + ttl \<and>
      (ttl = 0 \<longrightarrow> 0 \<le> ACCESS_TOKEN_EXPIRE_MINUTES cfg)"
  then obtain u where u: "find (\<lambda>u. User.user_id u = k) (rows db) = Some u"
    using find_exists [of "rows db" "\<lambda>u. User.user_id u = k"] by blast
  have live: "\<not> t0 + (if ttl \<noteq> 0 then ttl else 60 * ACCESS_TOKEN_EXPIRE_MINUTES cfg) < now"
    using h by auto
  have "get_current_user cfg flt now db (Some (issue cfg t0 k (Some ttl))) = Inr u"
    unfolding get_current_user_issue using live h u by (simp add: query_first_def)
  with find_id_Some [OF u]
  show "\<exists>u \<in> set (rows db). User.user_id u = k \<and>
         get_current_user cfg flt now db (Some (issue cfg t0 k (Some ttl))) = Inr u"
    by blast
next
  assume h: "ttl < 0 \<and> t0 \<le> now"
  then show e: "get_current_user cfg flt now db (Some (issue cfg t0 k (Some ttl))) =
        Inl (HTTPException 401 Invalid_token True)"
    unfolding get_current_user_issue by simp
  show "outcome (get_current_user cfg flt now db (Some (issue cfg t0 k (Some ttl)))) =
        Inl InvalidToken"
    unfolding e by (simp add: outcome_def)
qed

theorem resolve_issue_round_trip_witness:
  "get_current_user demo_settings {} 1060 demo_db (Some (issue demo_settings 1000 1 (Some 60))) =
     Inr alice \<and>
   get_current_user demo_settings {} 1000 demo_db (Some (issue demo_settings 1000 1 (Some (- 1)))) =
     Inl (HTTPException 401 Invalid_token True)"
  using resolve_issue_round_trip [where db = demo_db and k = 1 and flt = "{}" and now = 1060
      and ?t0.0 = 1000 and ttl = 60 and cfg = demo_settings]
    resolve_issue_round_trip [where db = demo_db and k = 1 and flt = "{}" and now = 1000
      and ?t0.0 = 1000 and ttl = "- 1" and cfg = demo_settings]
  by (simp add: demo_db_def alice_def)

text \<open>
  C2. Resolver failure classification: without a token the resolver fails with the
  missing-credential 401 (\<open>Unauthenticated\<close>); a token that does not decode (not a signed
  structure, a signature that does not verify, an expired token) or that has no subject
  fails as \<open>InvalidToken\<close>; a token whose coerced subject is the key of no stored user
  fails, when the lookup completes, as \<open>Unauthenticated\<close>; and a user that the resolver
  returns is a stored user whose key is the coerced subject of the token.
\<close>

theorem resolver_failure_classification:
  "get_current_user cfg flt now db None = Inl (HTTPException 401 Credentials_required True) \<and>
   outcome (get_current_user cfg flt now db None) = Inl Unauthenticated \<and>
   (jwt_decode now tok (SECRET_KEY cfg) [ALGORITHM cfg] = Inl e \<longrightarrow>
      outcome (get_current_user cfg flt now db (Some tok)) = Inl InvalidToken) \<and>
   (sg \<noteq> Hmac (SECRET_KEY cfg) alg claims \<longrightarrow>
      outcome (get_current_user cfg flt now db (Some (Compact alg claims sg))) = Inl InvalidToken) \<and>
   outcome (get_current_user cfg flt now db (Some (Opaque s))) = Inl InvalidToken \<and>
   (jwt_decode now tok (SECRET_KEY cfg) [ALGORITHM cfg] = Inr payload \<and>
    map_of payload ''sub'' = None \<longrightarrow>
      outcome (get_current_user cfg flt now db (Some tok)) = Inl InvalidToken) \<and>
   (jwt_decode now tok (SECRET_KEY cfg) [ALGORITHM cfg] = Inr payload \<and>
    map_of payload ''sub'' = Some sub \<and> coerce_sub sub = Inr uid \<and> Query \<notin> flt \<and>
    (\<forall>u \<in> set (rows db). User.user_id u \<noteq> uid) \<longrightarrow>
      get_current_user cfg flt now db (Some tok) = Inl (HTTPException 401 User_not_found True) \<and>
      outcome (get_current_user cfg flt now db (Some tok)) = Inl Unauthenticated) \<and>
   (get_current_user cfg flt now db (Some tok) = Inr u \<longrightarrow>
      u \<in> set (rows db) \<and>
      (\<exists>payload sub. jwt_decode now tok (SECRET_KEY cfg) [ALGORITHM cfg] = Inr payload \<and>
         map_of payload ''sub'' = Some sub \<and> coerce_sub sub = Inr (User.user_id u)))"
proof (intro conjI impI)
  show "get_current_user cfg flt now db None = Inl (HTTPException 401 Credentials_required True)"
    by (rule get_current_user_None)
  show "outcome (get_current_user cfg flt now db None) = Inl Unauthenticated"
    by (simp add: get_current_user_None outcome_def)
next
  assume "jwt_decode now tok (SECRET_KEY cfg) [ALGORITHM cfg] = Inl e"
  then show "outcome (get_current_user cfg flt now db (Some tok)) = Inl InvalidToken"
    by (simp add: get_current_user_decode_error outcome_def)
next
  assume "sg \<noteq> Hmac (SECRET_KEY cfg) alg claims"
  then have "\<exists>e. jwt_decode now (Compact alg claims sg) (SECRET_KEY cfg) [ALGORITHM cfg] = Inl e"
    by (auto simp: jwt_decode_def)
  then show "outcome (get_current_user cfg flt now db (Some (Compact alg claims sg))) =
      Inl InvalidToken"
    by (auto simp: get_current_user_decode_error outcome_def)
next
  have "jwt_decode now (Opaque s) (SECRET_KEY cfg) [ALGORITHM cfg] = Inl JWTError"
    by (simp add: jwt_decode_def)
  then show "outcome (get_current_user cfg flt now db (Some (Opaque s))) = Inl InvalidToken"
    by (simp add: get_current_user_decode_error outcome_def)
next
  assume "jwt_decode now tok (SECRET_KEY cfg) [ALGORITHM cfg] = Inr payload \<and>
    map_of payload ''sub'' = None"
  then show "outcome (get_current_user cfg flt now db (Some tok)) = Inl InvalidToken"
    by (simp add: get_current_user_no_sub outcome_def)
next
  assume h: "jwt_decode now tok (SECRET_KEY cfg) [ALGORITHM cfg] = Inr payload \<and>
    map_of payload ''sub'' = Some sub \<and> coerce_sub sub = Inr uid \<and> Query \<notin> flt \<and>
    (\<forall>u \<in> set (rows db). User.user_id u \<noteq> uid)"
  then have "find (\<lambda>u. User.user_id u = uid) (rows db) = None"
    by (simp add: find_None_iff)
  with h show r: "get_current_user cfg flt now db (Some tok) =
      Inl (HTTPException 401 User_not_found True)"
    by (simp add: get_current_user_sub query_first_def)
  show "outcome (get_current_user cfg flt now db (Some tok)) = Inl Unauthenticated"
    unfolding r by (simp add: outcome_def)
next
  assume h: "get_current_user cfg flt now db (Some tok) = Inr u"
  from get_current_user_Inr [OF h]
  show "u \<in> set (rows db)" by (auto simp: find_Some_iff)
  from get_current_user_Inr [OF h]
  show "\<exists>payload sub. jwt_decode now tok (SECRET_KEY cfg) [ALGORITHM cfg] = Inr payload \<and>
         map_of payload ''sub'' = Some sub \<and> coerce_sub sub = Inr (User.user_id u)"
    by auto
qed

theorem resolver_failure_classification_witness:
  "outcome (get_current_user demo_settings {} 1000 demo_db
      (Some (jwt_encode [(''exp'', JInt 2000)] ''k3y'' ''HS256''))) = Inl InvalidToken \<and>
   outcome (get_current_user demo_settings {} 1000 demo_db
      (Some (Compact ''HS256'' [(''sub'', JStr ''1'')] (Hmac ''other'' ''HS256'' [(''sub'', JStr ''1'')]))))
     = Inl InvalidToken \<and>
   outcome (get_current_user demo_settings {} 1000 demo_db
      (Some (issue demo_settings 900 1 (Some 60)))) = Inl InvalidToken \<and>
   get_current_user demo_settings {} 1000 demo_db (Some (issue demo_settings 1000 7 (Some 60))) =
     Inl (HTTPException 401 User_not_found True) \<and>
   get_current_user demo_settings {} 1000 demo_db (Some (issue demo_settings 1000 1 (Some 60))) =
     Inr alice \<and>
   alice \<in> set (rows demo_db)"
proof -
  note rfc = resolver_failure_classification [where cfg = demo_settings and flt = "{}"
      and now = 1000 and db = demo_db]
  have k: "SECRET_KEY demo_settings = ''k3y''" "ALGORITHM demo_settings = ''HS256''"
    by (simp_all add: demo_settings_def)
  have d0: "jwt_decode 1000 (jwt_encode [(''exp'', JInt 2000)] ''k3y'' ''HS256'')
      (SECRET_KEY demo_settings) [ALGORITHM demo_settings] = Inr [(''exp'', JInt 2000)]"
    by (simp add: k jwt_decode_def jwt_encode_def jose_defs)
  have a: "outcome (get_current_user demo_settings {} 1000 demo_db
      (Some (jwt_encode [(''exp'', JInt 2000)] ''k3y'' ''HS256''))) = Inl InvalidToken"
    using rfc [where tok = "jwt_encode [(''exp'', JInt 2000)] ''k3y'' ''HS256''"
        and payload = "[(''exp'', JInt 2000)]"] d0 by simp
  have b: "outcome (get_current_user demo_settings {} 1000 demo_db
      (Some (Compact ''HS256'' [(''sub'', JStr ''1'')] (Hmac ''other'' ''HS256'' [(''sub'', JStr ''1'')]))))
     = Inl InvalidToken"
    using rfc [where sg = "Hmac ''other'' ''HS256'' [(''sub'', JStr ''1'')]" and alg = "''HS256''"
        and claims = "[(''sub'', JStr ''1'')]"] by (simp add: k)
  have d1: "jwt_decode 1000 (issue demo_settings 900 1 (Some 60))
      (SECRET_KEY demo_settings) [ALGORITHM demo_settings] = Inl ExpiredSignatureError"
    by (simp add: decode_issue claims_of_issue jose_defs)
  have c: "outcome (get_current_user demo_settings {} 1000 demo_db
      (Some (issue demo_settings 900 1 (Some 60)))) = Inl InvalidToken"
    using rfc [where tok = "issue demo_settings 900 1 (Some 60)" and e = ExpiredSignatureError] d1
    by simp
  have d7: "jwt_decode 1000 (issue demo_settings 1000 7 (Some 60))
      (SECRET_KEY demo_settings) [ALGORITHM demo_settings] =
        Inr [(''sub'', JStr (py_str 7)), (''exp'', JInt 1060)]"
    by (simp add: decode_issue claims_of_issue jose_defs)
  have c7: "coerce_sub (JStr (py_str 7)) = Inr 7"
    by (simp add: coerce_sub_def py_int_py_str)
  have d: "get_current_user demo_settings {} 1000 demo_db
      (Some (issue demo_settings 1000 7 (Some 60))) = Inl (HTTPException 401 User_not_found True)"
    using rfc [where tok = "issue demo_settings 1000 7 (Some 60)"
        and payload = "[(''sub'', JStr (py_str 7)), (''exp'', JInt 1060)]"
        and sub = "JStr (py_str 7)" and uid = 7] d7 c7
    by (simp add: demo_db_def alice_def)
  have e: "get_current_user demo_settings {} 1000 demo_db
      (Some (issue demo_settings 1000 1 (Some 60))) = Inr alice"
    by (simp add: get_current_user_issue query_first_def demo_db_def alice_def)
  have f: "alice \<in> set (rows demo_db)"
    using rfc [where tok = "issue demo_settings 1000 1 (Some 60)" and u = alice] e by simp
  from a b c d e f show ?thesis by simp
qed




text \<open>
  C5. Login timestamp resilience: when the credentials are accepted, both login handlers
  return the token response for the authenticated user whether or not the commit of the
  login time raises; when it raises, the session is rolled back (the table is as before,
  nothing is pending); the token decodes, until it expires, to the subject of that user;
  and a login succeeds exactly when the authenticator returns a user.
\<close>

theorem login_timestamp_resilience:
  "(authenticate_user v flt db n p = Some user \<longrightarrow>
      fst (login v cfg flt t1 t2 db n p) = Inr (issued_token cfg t2 user) \<and>
      fst (login_for_access_token v cfg flt t1 t2 db n p) = Inr (issued_token cfg t2 user) \<and>
      (Commit \<in> flt \<longrightarrow>
         snd (login v cfg flt t1 t2 db n p) = db\<lparr>pending := []\<rparr> \<and>
         snd (login_for_access_token v cfg flt t1 t2 db n p) = db\<lparr>pending := []\<rparr>) \<and>
      (now \<le> t2 + 60 * ACCESS_TOKEN_EXPIRE_MINUTES cfg \<longrightarrow>
         jwt_decode now (access_token (issued_token cfg t2 user)) (SECRET_KEY cfg) [ALGORITHM cfg] =
           Inr [(''sub'', JStr (py_str (User.user_id user))),
                (''exp'', JInt (t2 + 60 * ACCESS_TOKEN_EXPIRE_MINUTES cfg))])) \<and>
   ((\<exists>r. fst (login v cfg flt t1 t2 db n p) = Inr r) \<longleftrightarrow>
      authenticate_user v flt db n p \<noteq> None) \<and>
   ((\<exists>r. fst (login_for_access_token v cfg flt t1 t2 db n p) = Inr r) \<longleftrightarrow>
      authenticate_user v flt db n p \<noteq> None)"
proof (intro conjI impI)
  assume a: "authenticate_user v flt db n p = Some user"
  show "fst (login v cfg flt t1 t2 db n p) = Inr (issued_token cfg t2 user)"
    by (simp add: login_Some [OF a])
  show "fst (login_for_access_token v cfg flt t1 t2 db n p) = Inr (issued_token cfg t2 user)"
    by (simp add: login_for_access_token_Some [OF a])
  {
    assume c: "Commit \<in> flt"
    show "snd (login v cfg flt t1 t2 db n p) = db\<lparr>pending := []\<rparr>"
      by (simp add: login_Some [OF a] touch_commit_fault [OF c])
    show "snd (login_for_access_token v cfg flt t1 t2 db n p) = db\<lparr>pending := []\<rparr>"
      by (simp add: login_for_access_token_Some [OF a] touch_commit_fault [OF c])
  }
  {
    assume "now \<le> t2 + 60 * ACCESS_TOKEN_EXPIRE_MINUTES cfg"
    then show "jwt_decode now (access_token (issued_token cfg t2 user)) (SECRET_KEY cfg)
        [ALGORITHM cfg] =
           Inr [(''sub'', JStr (py_str (User.user_id user))),
                (''exp'', JInt (t2 + 60 * ACCESS_TOKEN_EXPIRE_MINUTES cfg))]"
      by (simp add: issued_token_def decode_issued)
  }
next
  show "(\<exists>r. fst (login v cfg flt t1 t2 db n p) = Inr r) \<longleftrightarrow>
      authenticate_user v flt db n p \<noteq> None"
    by (cases "authenticate_user v flt db n p") (simp_all add: login_Some login_None)
  show "(\<exists>r. fst (login_for_access_token v cfg flt t1 t2 db n p) = Inr r) \<longleftrightarrow>
      authenticate_user v flt db n p \<noteq> None"
    by (cases "authenticate_user v flt db n p")
      (simp_all add: login_for_access_token_Some login_for_access_token_None)
qed

theorem login_timestamp_resilience_witness:
  "login demo_verify demo_settings {Commit} 200 201 demo_db ''alice'' ''secret'' =
     (Inr (issued_token demo_settings 201 alice), demo_db) \<and>
   login_for_access_token demo_verify demo_settings {Commit} 200 201 demo_db ''alice'' ''secret'' =
     (Inr (issued_token demo_settings 201 alice), demo_db) \<and>
   jwt_decode 300 (access_token (issued_token demo_settings 201 alice)) ''k3y'' [''HS256''] =
     Inr [(''sub'', JStr (py_str 1)), (''exp'', JInt 2001)]"
proof -
  note r = login_timestamp_resilience [where v = demo_verify and flt = "{Commit}"
      and db = demo_db and n = "''alice''" and p = "''secret''" and user = alice
      and cfg = demo_settings and ?t1.0 = 200 and ?t2.0 = 201 and now = 300]
  have p: "demo_db\<lparr>pending := []\<rparr> = demo_db" by (simp add: demo_db_def)
  have m: "(300::int) \<le> 201 + 60 * ACCESS_TOKEN_EXPIRE_MINUTES demo_settings"
    "SECRET_KEY demo_settings = ''k3y''" "ALGORITHM demo_settings = ''HS256''"
    "User.user_id alice = 1" "201 + 60 * ACCESS_TOKEN_EXPIRE_MINUTES demo_settings = 2001"
    by (simp_all add: demo_settings_def alice_def)
  from r authenticate_alice(5) p m show ?thesis
    by (simp add: prod_eq_iff)
qed

text \<open>
  C6. Authenticator totality: \<open>authenticate_user\<close> always returns, a user or \<open>None\<close>. In a
  table where names are unique it returns \<open>u\<close> exactly when the lookup completes, \<open>u\<close> is
  a stored user with the given name and the password verifies against the stored hash of
  \<open>u\<close>. It returns \<open>None\<close> when the lookup raises, when no user has the name, and
  when the password does not verify.
\<close>

theorem authenticator_total:
  "(distinct (map UserFields.name (rows db)) \<longrightarrow>
      (authenticate_user v flt db n p = Some u \<longleftrightarrow>
         Query \<notin> flt \<and> u \<in> set (rows db) \<and> UserFields.name u = n \<and>
         v p (UserFields.password u))) \<and>
   (authenticate_user v flt db n p = Some u \<longrightarrow>
      u \<in> set (rows db) \<and> UserFields.name u = n \<and> v p (UserFields.password u)) \<and>
   (Query \<in> flt \<longrightarrow> authenticate_user v flt db n p = None) \<and>
   ((\<forall>r \<in> set (rows db). UserFields.name r \<noteq> n) \<longrightarrow> authenticate_user v flt db n p = None) \<and>
   (find (\<lambda>r. UserFields.name r = n) (rows db) = Some r \<and> \<not> v p (UserFields.password r) \<longrightarrow>
      authenticate_user v flt db n p = None)"
proof (intro conjI impI)
  assume "distinct (map UserFields.name (rows db))"
  then show "authenticate_user v flt db n p = Some u \<longleftrightarrow>
         Query \<notin> flt \<and> u \<in> set (rows db) \<and> UserFields.name u = n \<and>
         v p (UserFields.password u)"
    by (simp add: authenticate_user_Some_iff find_distinct_iff)
next
  assume h: "authenticate_user v flt db n p = Some u"
  then have f: "find (\<lambda>r. UserFields.name r = n) (rows db) = Some u"
    and "v p (UserFields.password u)"
    by (simp_all add: authenticate_user_Some_iff)
  then show "v p (UserFields.password u)" by simp
  from find_id_Some [OF f] show "u \<in> set (rows db)" "UserFields.name u = n" by simp_all
next
  assume "Query \<in> flt"
  then show "authenticate_user v flt db n p = None" by (simp add: authenticate_user_None_iff)
next
  assume "\<forall>r \<in> set (rows db). UserFields.name r \<noteq> n"
  then have "find (\<lambda>r. UserFields.name r = n) (rows db) = None" by (simp add: find_None_iff)
  then show "authenticate_user v flt db n p = None" by (simp add: authenticate_user_None_iff)
next
  assume "find (\<lambda>r. UserFields.name r = n) (rows db) = Some r \<and> \<not> v p (UserFields.password r)"
  then show "authenticate_user v flt db n p = None" by (auto simp: authenticate_user_None_iff)
qed

theorem authenticator_total_witness:
  "authenticate_user demo_verify {} demo_db ''alice'' ''secret'' = Some alice \<and>
   alice \<in> set (rows demo_db) \<and> demo_verify ''secret'' (UserFields.password alice) \<and>
   authenticate_user demo_verify {Query} demo_db ''alice'' ''secret'' = None \<and>
   authenticate_user demo_verify {} demo_db ''bob'' ''secret'' = None \<and>
   authenticate_user demo_verify {} demo_db ''alice'' ''wrong'' = None"
proof -
  have a: "authenticate_user demo_verify {} demo_db ''alice'' ''secret'' = Some alice"
    using authenticator_total [where db = demo_db and v = demo_verify and flt = "{}"
        and n = "''alice''" and p = "''secret''" and u = alice]
    by (simp add: demo_db_def alice_def demo_verify_def demo_hash_def)
  have b: "alice \<in> set (rows demo_db) \<and> demo_verify ''secret'' (UserFields.password alice)"
    using authenticator_total [where db = demo_db and v = demo_verify and flt = "{}"
        and n = "''alice''" and p = "''secret''" and u = alice] a
    by simp
  have c: "authenticate_user demo_verify {Query} demo_db ''alice'' ''secret'' = None"
    using authenticator_total [where db = demo_db and v = demo_verify and flt = "{Query}"
        and n = "''alice''" and p = "''secret''"]
    by simp
  have d: "authenticate_user demo_verify {} demo_db ''bob'' ''secret'' = None"
    using authenticator_total [where db = demo_db and v = demo_verify and flt = "{}"
        and n = "''bob''" and p = "''secret''"]
    by (simp add: demo_db_def alice_def)
  have e: "authenticate_user demo_verify {} demo_db ''alice'' ''wrong'' = None"
    using authenticator_total [where db = demo_db and v = demo_verify and flt = "{}"
        and n = "''alice''" and p = "''wrong''" and r = alice]
    by (simp add: demo_db_def alice_def demo_verify_def demo_hash_def)
  from a b c d e show ?thesis by simp
qed

text \<open>
  C9, as stated, fails: on wrong credentials the exception of \<^verbatim>\<open>POST /auth/token\<close> carries
  the header \<^verbatim>\<open>WWW-Authenticate: Bearer\<close> and the exception of \<^verbatim>\<open>POST /auth/login\<close> does
  not, so the two outcomes differ.
\<close>

theorem login_endpoints_differ:
  "login_for_access_token demo_verify demo_settings {} 200 201 demo_db ''alice'' ''wrong'' \<noteq>
   login demo_verify demo_settings {} 200 201 demo_db ''alice'' ''wrong''"
  by (simp add: login_for_access_token_None login_None authenticate_alice)

text \<open>
  C9, amended. Endpoint equivalence up to the challenge header: for the same input the
  two login handlers leave the same session; on accepted credentials they return the same
  token response; on rejected credentials both raise a 401 with the same generic message
  and leave the session untouched, the one of \<^verbatim>\<open>POST /auth/token\<close> with the header
  \<^verbatim>\<open>WWW-Authenticate: Bearer\<close>, the one of \<^verbatim>\<open>POST /auth/login\<close> without it.
\<close>

theorem login_endpoints_agree:
  "snd (login_for_access_token v cfg flt t1 t2 db n p) = snd (login v cfg flt t1 t2 db n p) \<and>
   (authenticate_user v flt db n p = Some user \<longrightarrow>
      fst (login_for_access_token v cfg flt t1 t2 db n p) = Inr (issued_token cfg t2 user) \<and>
      fst (login v cfg flt t1 t2 db n p) = Inr (issued_token cfg t2 user)) \<and>
   (authenticate_user v flt db n p = None \<longrightarrow>
      login_for_access_token v cfg flt t1 t2 db n p =
        (Inl (HTTPException 401 Bad_credentials True), db) \<and>
      login v cfg flt t1 t2 db n p = (Inl (HTTPException 401 Bad_credentials False), db) \<and>
      outcome (fst (login_for_access_token v cfg flt t1 t2 db n p)) = Inl InvalidCredentials \<and>
      outcome (fst (login v cfg flt t1 t2 db n p)) = Inl InvalidCredentials)"
proof (intro conjI impI)
  show "snd (login_for_access_token v cfg flt t1 t2 db n p) = snd (login v cfg flt t1 t2 db n p)"
    by (cases "authenticate_user v flt db n p")
      (simp_all add: login_Some login_None login_for_access_token_Some
        login_for_access_token_None)
next
  assume a: "authenticate_user v flt db n p = Some user"
  show "fst (login_for_access_token v cfg flt t1 t2 db n p) = Inr (issued_token cfg t2 user)"
    by (simp add: login_for_access_token_Some [OF a])
  show "fst (login v cfg flt t1 t2 db n p) = Inr (issued_token cfg t2 user)"
    by (simp add: login_Some [OF a])
next
  assume a: "authenticate_user v flt db n p = None"
  show "login_for_access_token v cfg flt t1 t2 db n p =
        (Inl (HTTPException 401 Bad_credentials True), db)"
    by (rule login_for_access_token_None [OF a])
  show "login v cfg flt t1 t2 db n p = (Inl (HTTPException 401 Bad_credentials False), db)"
    by (rule login_None [OF a])
  show "outcome (fst (login_for_access_token v cfg flt t1 t2 db n p)) = Inl InvalidCredentials"
    by (simp add: login_for_access_token_None [OF a] outcome_def)
  show "outcome (fst (login v cfg flt t1 t2 db n p)) = Inl InvalidCredentials"
    by (simp add: login_None [OF a] outcome_def)
qed

theorem login_endpoints_agree_witness:
  "fst (login_for_access_token demo_verify demo_settings {} 200 201 demo_db ''alice'' ''secret'') =
     Inr (issued_token demo_settings 201 alice) \<and>
   fst (login demo_verify demo_settings {} 200 201 demo_db ''alice'' ''secret'') =
     Inr (issued_token demo_settings 201 alice) \<and>
   login_for_access_token demo_verify demo_settings {} 200 201 demo_db ''alice'' ''wrong'' =
     (Inl (HTTPException 401 Bad_credentials True), demo_db) \<and>
   login demo_verify demo_settings {} 200 201 demo_db ''alice'' ''wrong'' =
     (Inl (HTTPException 401 Bad_credentials False), demo_db)"
  using login_endpoints_agree [where v = demo_verify and cfg = demo_settings and flt = "{}"
      and ?t1.0 = 200 and ?t2.0 = 201 and db = demo_db and n = "''alice''" and p = "''secret''"
      and user = alice]
    login_endpoints_agree [where v = demo_verify and cfg = demo_settings and flt = "{}"
      and ?t1.0 = 200 and ?t2.0 = 201 and db = demo_db and n = "''alice''" and p = "''wrong''"]
    authenticate_alice
  by simp

text \<open>
  C4. Registration failure taxonomy and atomicity: of the claim, \<open>register_user_failures\<close>
  above has what holds (a password mismatch, a taken name and a failed commit leave the
  table as it was). The claim that no failure leaves a user row does not hold: the
  \<^verbatim>\<open>try\<close> block goes on after the commit, so when \<^verbatim>\<open>db.refresh\<close> raises after a commit
  that went through, the handler rolls back an empty unit of work and raises the 500 of a
  persistence failure, while the new row stays in the table.
\<close>

theorem register_refresh_fault_keeps_row:
  "register_user demo_hash demo_settings {Refresh} 100 101 empty_db alice_form =
     (Inl (HTTPException 500 (Registration_error (OperationalError Refresh)) False),
      \<lparr>rows = [alice], pending = []\<rparr>) \<and>
   outcome (fst (register_user demo_hash demo_settings {Refresh} 100 101 empty_db alice_form)) =
     Inl PersistenceFailure \<and>
   rows (snd (register_user demo_hash demo_settings {Refresh} 100 101 empty_db alice_form)) \<noteq>
     rows empty_db"
proof -
  have r: "register_user demo_hash demo_settings {Refresh} 100 101 empty_db alice_form =
     (Inl (HTTPException 500 (Registration_error (OperationalError Refresh)) False),
      \<lparr>rows = [alice], pending = []\<rparr>)"
    by (simp add: register_alice(2) demo_db_def)
  show ?thesis
    unfolding r by (simp add: outcome_def empty_db_def)
qed

text \<open>
  C7. New-user construction: after a successful registration in a fresh session the table
  is the old one followed by one new row, which has the key returned in the response, the
  given name, the hash of the given password, no points, the creation time as time of the
  last login, and as categories the given categories in their order, each but the last
  followed by a comma; that is the empty string for no categories, and splitting it at the
  commas gives the categories back when none of them contains a comma.
\<close>

theorem new_user_construction:
  "pending db = [] \<and> register_user h cfg flt t1 t2 db ud = (Inr r, db') \<longrightarrow>
      (\<exists>row. rows db' = rows db @ [row] \<and> pending db' = [] \<and>
         User.user_id row = Token.user_id r \<and>
         UserFields.name row = UserCreate.name ud \<and>
         UserFields.password row = h (UserCreate.password ud) \<and>
         point_total row = 0 \<and>
         last_login_at row = Some t1 \<and>
         UserFields.categories row = comma_joined (UserCreate.categories ud) \<and>
         (UserCreate.categories ud = [] \<longrightarrow> UserFields.categories row = []) \<and>
         (UserCreate.categories ud \<noteq> [] \<and>
          (\<forall>c \<in> set (UserCreate.categories ud). CHR '','' \<notin> set c) \<longrightarrow>
            split_on CHR '','' (UserFields.categories row) = UserCreate.categories ud))"
proof
  assume h: "pending db = [] \<and> register_user h cfg flt t1 t2 db ud = (Inr r, db')"
  let ?row = "new_user_row h t1 db ud"
  let ?cs = "UserCreate.categories ud"
  from h have p: "pending db = []" and reg: "register_user h cfg flt t1 t2 db ud = (Inr r, db')"
    by simp_all
  have r: "r = issued_token cfg t2 ?row" and d: "db' = db\<lparr>rows := rows db @ [?row]\<rparr>"
    using register_user_Inr [OF p reg] by simp_all
  have c: "UserFields.categories ?row = comma_joined ?cs" by (simp add: new_user_row_def)
  have e: "?cs = [] \<longrightarrow> UserFields.categories ?row = []"
    by (simp add: c comma_joined_def)
  have s: "?cs \<noteq> [] \<and> (\<forall>c \<in> set ?cs. CHR '','' \<notin> set c) \<longrightarrow>
      split_on CHR '','' (UserFields.categories ?row) = ?cs"
    using split_on_join [of ?cs "CHR '',''"] by (simp add: c join_comma_joined [symmetric])
  have f: "rows db' = rows db @ [?row] \<and> pending db' = [] \<and>
         User.user_id ?row = Token.user_id r \<and>
         UserFields.name ?row = UserCreate.name ud \<and>
         UserFields.password ?row = h (UserCreate.password ud) \<and>
         point_total ?row = 0 \<and>
         last_login_at ?row = Some t1"
    unfolding r d using p by (simp add: new_user_row_def issued_token_def)
  from f c e s
  show "\<exists>row. rows db' = rows db @ [row] \<and> pending db' = [] \<and>
         User.user_id row = Token.user_id r \<and>
         UserFields.name row = UserCreate.name ud \<and>
         UserFields.password row = h (UserCreate.password ud) \<and>
         point_total row = 0 \<and>
         last_login_at row = Some t1 \<and>
         UserFields.categories row = comma_joined (UserCreate.categories ud) \<and>
         (UserCreate.categories ud = [] \<longrightarrow> UserFields.categories row = []) \<and>
         (UserCreate.categories ud \<noteq> [] \<and>
          (\<forall>c \<in> set (UserCreate.categories ud). CHR '','' \<notin> set c) \<longrightarrow>
            split_on CHR '','' (UserFields.categories row) = UserCreate.categories ud)"
    by blast
qed

theorem new_user_construction_witness:
  "register_user demo_hash demo_settings {} 100 101 demo_db bob_form =
     (Inr (issued_token demo_settings 101 bob), \<lparr>rows = [alice, bob], pending = []\<rparr>) \<and>
   (\<exists>row. [alice, bob] = rows demo_db @ [row] \<and>
      User.user_id row = 2 \<and>
      UserFields.name row = ''bob'' \<and>
      UserFields.password row = ''hash:pw'' \<and>
      point_total row = 0 \<and>
      last_login_at row = Some 100 \<and>
      UserFields.categories row = ''x,y'' \<and>
      split_on CHR '','' (UserFields.categories row) = [''x'', ''y''])"
proof -
  have p: "pending demo_db = [] \<and>
      register_user demo_hash demo_settings {} 100 101 demo_db bob_form =
        (Inr (issued_token demo_settings 101 bob), \<lparr>rows = [alice, bob], pending = []\<rparr>)"
    by (simp add: register_bob) (simp add: demo_db_def)
  from new_user_construction [where db = demo_db and h = demo_hash and cfg = demo_settings
      and flt = "{}" and ?t1.0 = 100 and ?t2.0 = 101 and ud = bob_form
      and r = "issued_token demo_settings 101 bob"
      and db' = "\<lparr>rows = [alice, bob], pending = []\<rparr>", THEN mp, OF p]
  obtain row where row: "rows \<lparr>rows = [alice, bob], pending = []\<rparr> = rows demo_db @ [row]"
    "User.user_id row = Token.user_id (issued_token demo_settings 101 bob)"
    "UserFields.name row = UserCreate.name bob_form"
    "UserFields.password row = demo_hash (UserCreate.password bob_form)"
    "point_total row = 0" "last_login_at row = Some 100"
    "UserFields.categories row = comma_joined (UserCreate.categories bob_form)"
    "UserCreate.categories bob_form \<noteq> [] \<and>
       (\<forall>c \<in> set (UserCreate.categories bob_form). CHR '','' \<notin> set c) \<longrightarrow>
       split_on CHR '','' (UserFields.categories row) = UserCreate.categories bob_form"
    by blast
  have "[alice, bob] = rows demo_db @ [row] \<and>
      User.user_id row = 2 \<and>
      UserFields.name row = ''bob'' \<and>
      UserFields.password row = ''hash:pw'' \<and>
      point_total row = 0 \<and>
      last_login_at row = Some 100 \<and>
      UserFields.categories row = ''x,y'' \<and>
      split_on CHR '','' (UserFields.categories row) = [''x'', ''y'']"
    using row
    by (simp add: bob_form_def demo_hash_def issued_token_def bob_def comma_joined_def)
  with register_bob show ?thesis by blast
qed

text \<open>
  C8. Issuer postcondition: \<open>issuer_postcondition\<close> above has what holds (for a lifetime
  other than zero the claims are the subject, the key as a decimal string, and the expiry,
  the time of issue plus the lifetime; without a lifetime the expiry is the time of issue
  plus the configured minutes). For a lifetime of zero the claim does not hold: the test
  \<^verbatim>\<open>if expires_delta:\<close> takes a zero \<^verbatim>\<open>timedelta\<close> for a missing one, and the token
  expires after the configured 30 minutes instead of at once.
\<close>

theorem issue_zero_ttl_uses_default:
  "claims_of (issue demo_settings 1000 1 (Some 0)) =
     [(''sub'', JStr (py_str 1)), (''exp'', JInt 2800)] \<and>
   claims_of (issue demo_settings 1000 1 (Some 0)) \<noteq>
     [(''sub'', JStr (py_str 1)), (''exp'', JInt (1000 + 0))]"
  by (simp add: claims_of_issue demo_settings_def)

text \<open>
  C10. Response self-consistency: a successful response of each of the three endpoints has
  the token type \<open>bearer\<close>; its \<open>user_id\<close> and \<open>user_name\<close> are the key and the name of
  one user (the authenticated one for the login handlers; for registration, in a fresh
  session, a row that the request added, with the requested name); and the subject claim
  of its token is the decimal string of that \<open>user_id\<close>, which reads back as the key.
\<close>

theorem response_self_consistent:
  "(login_for_access_token v cfg flt t1 t2 db n p = (Inr r, db') \<longrightarrow>
      (\<exists>u. authenticate_user v flt db n p = Some u \<and>
           Token.user_id r = User.user_id u \<and> user_name r = UserFields.name u) \<and>
      token_type r = ''bearer'' \<and>
      map_of (claims_of (access_token r)) ''sub'' = Some (JStr (py_str (Token.user_id r)))) \<and>
   (login v cfg flt t1 t2 db n p = (Inr r, db') \<longrightarrow>
      (\<exists>u. authenticate_user v flt db n p = Some u \<and>
           Token.user_id r = User.user_id u \<and> user_name r = UserFields.name u) \<and>
      token_type r = ''bearer'' \<and>
      map_of (claims_of (access_token r)) ''sub'' = Some (JStr (py_str (Token.user_id r)))) \<and>
   (pending db = [] \<and> register_user h cfg flt t1 t2 db ud = (Inr r, db') \<longrightarrow>
      (\<exists>row \<in> set (rows db'). row \<notin> set (rows db) \<and>
           Token.user_id r = User.user_id row \<and> user_name r = UserFields.name row) \<and>
      user_name r = UserCreate.name ud \<and>
      token_type r = ''bearer'' \<and>
      map_of (claims_of (access_token r)) ''sub'' = Some (JStr (py_str (Token.user_id r)))) \<and>
   py_int (py_str (Token.user_id r)) = Some (Token.user_id r)"
proof (intro conjI impI)
  assume h: "login_for_access_token v cfg flt t1 t2 db n p = (Inr r, db')"
  then obtain u where a: "authenticate_user v flt db n p = Some u"
    by (cases "authenticate_user v flt db n p") (simp_all add: login_for_access_token_None)
  from h have r: "r = issued_token cfg t2 u"
    by (simp add: login_for_access_token_Some [OF a])
  show "\<exists>u. authenticate_user v flt db n p = Some u \<and>
           Token.user_id r = User.user_id u \<and> user_name r = UserFields.name u"
    using a r by (simp add: issued_token_fields)
  show "token_type r = ''bearer''" by (simp add: r issued_token_fields)
  show "map_of (claims_of (access_token r)) ''sub'' = Some (JStr (py_str (Token.user_id r)))"
    by (simp add: r issued_token_fields)
next
  assume h: "login v cfg flt t1 t2 db n p = (Inr r, db')"
  then obtain u where a: "authenticate_user v flt db n p = Some u"
    by (cases "authenticate_user v flt db n p") (simp_all add: login_None)
  from h have r: "r = issued_token cfg t2 u"
    by (simp add: login_Some [OF a])
  show "\<exists>u. authenticate_user v flt db n p = Some u \<and>
           Token.user_id r = User.user_id u \<and> user_name r = UserFields.name u"
    using a r by (simp add: issued_token_fields)
  show "token_type r = ''bearer''" by (simp add: r issued_token_fields)
  show "map_of (claims_of (access_token r)) ''sub'' = Some (JStr (py_str (Token.user_id r)))"
    by (simp add: r issued_token_fields)
next
  assume h: "pending db = [] \<and> register_user h cfg flt t1 t2 db ud = (Inr r, db')"
  let ?row = "new_user_row h t1 db ud"
  from h have p: "pending db = []" and reg: "register_user h cfg flt t1 t2 db ud = (Inr r, db')"
    by simp_all
  have r: "r = issued_token cfg t2 ?row" and d: "db' = db\<lparr>rows := rows db @ [?row]\<rparr>"
    using register_user_Inr [OF p reg] by simp_all
  have fresh: "?row \<notin> set (rows db)"
  proof
    assume "?row \<in> set (rows db)"
    from fresh_id_gt [OF this] show False by (simp add: new_user_row_def)
  qed
  have "?row \<in> set (rows db')" by (simp add: d)
  with fresh show "\<exists>row \<in> set (rows db'). row \<notin> set (rows db) \<and>
           Token.user_id r = User.user_id row \<and> user_name r = UserFields.name row"
    using r by (auto simp: issued_token_fields)
  show "user_name r = UserCreate.name ud"
    by (simp add: r issued_token_fields new_user_row_def)
  show "token_type r = ''bearer''" by (simp add: r issued_token_fields)
  show "map_of (claims_of (access_token r)) ''sub'' = Some (JStr (py_str (Token.user_id r)))"
    by (simp add: r issued_token_fields)
next
  show "py_int (py_str (Token.user_id r)) = Some (Token.user_id r)" by (rule py_int_py_str)
qed

theorem response_self_consistent_witness:
  "login_for_access_token demo_verify demo_settings {} 200 201 demo_db ''alice'' ''secret'' =
     (Inr (issued_token demo_settings 201 alice),
      \<lparr>rows = [alice\<lparr>last_login_at := Some 200\<rparr>], pending = []\<rparr>) \<and>
   login demo_verify demo_settings {} 200 201 demo_db ''alice'' ''secret'' =
     (Inr (issued_token demo_settings 201 alice),
      \<lparr>rows = [alice\<lparr>last_login_at := Some 200\<rparr>], pending = []\<rparr>) \<and>
   register_user demo_hash demo_settings {} 100 101 empty_db alice_form =
     (Inr (issued_token demo_settings 101 alice), demo_db) \<and>
   token_type (issued_token demo_settings 201 alice) = ''bearer'' \<and>
   Token.user_id (issued_token demo_settings 201 alice) = 1 \<and>
   user_name (issued_token demo_settings 201 alice) = ''alice'' \<and>
   map_of (claims_of (access_token (issued_token demo_settings 201 alice))) ''sub'' =
     Some (JStr (py_str 1)) \<and>
   map_of (claims_of (access_token (issued_token demo_settings 101 alice))) ''sub'' =
     Some (JStr (py_str 1))"
proof -
  let ?db' = "\<lparr>rows = [alice\<lparr>last_login_at := Some 200\<rparr>], pending = []\<rparr>"
  have a: "authenticate_user demo_verify {} demo_db ''alice'' ''secret'' = Some alice"
    by (rule authenticate_alice(1))
  have l1: "login_for_access_token demo_verify demo_settings {} 200 201 demo_db ''alice'' ''secret'' =
     (Inr (issued_token demo_settings 201 alice), ?db')"
    unfolding login_for_access_token_Some [OF a]
    by (simp add: db_commit_def set_attr_def demo_db_def)
  have l2: "login demo_verify demo_settings {} 200 201 demo_db ''alice'' ''secret'' =
     (Inr (issued_token demo_settings 201 alice), ?db')"
    unfolding login_Some [OF a]
    by (simp add: db_commit_def set_attr_def demo_db_def)
  have l3: "register_user demo_hash demo_settings {} 100 101 empty_db alice_form =
     (Inr (issued_token demo_settings 101 alice), demo_db)"
    by (rule register_alice(1))
  have e: "pending empty_db = []" by (simp add: empty_db_def)
  have i: "Token.user_id (issued_token demo_settings 201 alice) = 1"
    "Token.user_id (issued_token demo_settings 101 alice) = 1"
    by (simp_all add: issued_token_def alice_def)
  have n: "UserFields.name alice = ''alice''" by (simp add: alice_def)
  note w = response_self_consistent [where v = demo_verify and cfg = demo_settings
      and flt = "{}" and ?t1.0 = 200 and ?t2.0 = 201 and db = demo_db and n = "''alice''"
      and p = "''secret''" and r = "issued_token demo_settings 201 alice" and db' = ?db']
  note w3 = response_self_consistent [where h = demo_hash and cfg = demo_settings
      and flt = "{}" and ?t1.0 = 100 and ?t2.0 = 101 and db = empty_db and ud = alice_form
      and r = "issued_token demo_settings 101 alice" and db' = demo_db]
  have b: "token_type (issued_token demo_settings 201 alice) = ''bearer'' \<and>
      user_name (issued_token demo_settings 201 alice) = ''alice'' \<and>
      map_of (claims_of (access_token (issued_token demo_settings 201 alice))) ''sub'' =
        Some (JStr (py_str 1))"
    using w l1 a i n by simp
  have c: "map_of (claims_of (access_token (issued_token demo_settings 101 alice))) ''sub'' =
      Some (JStr (py_str 1))"
    using w3 l3 e i by simp
  from l1 l2 l3 b c i show ?thesis by simp
qed

end
